theory Spec2Isabelle
  imports Main "HOL-Library.Word"
begin

unbundle bit_operations_syntax

section \<open>Data model\<close>

text \<open>
  A Python \<open>bytes\<close> or \<open>bytearray\<close> object is a list of 8-bit words. Python integers
  are unbounded and are modelled as \<open>int\<close>; a byte read out of a \<open>bytes\<close> object
  (\<open>packet[1]\<close>) is the integer \<open>uint b\<close>.
\<close>

type_synonym byte = "8 word"

text \<open>
  Python's \<open>float\<close> is kept abstract: it is a type variable \<open>'f\<close>, and
  \<open>struct.unpack("<f", b)[0]\<close>, which reads four bytes as a little-endian IEEE-754
  single precision number, is a parameter \<open>unpack_f\<close> of every function that decodes
  a float. The float \<open>0.0\<close> of the source is what \<open>struct.unpack\<close> returns for four
  zero bytes.
\<close>

definition float_zero :: "(byte list \<Rightarrow> 'f) \<Rightarrow> 'f" where
  "float_zero unpack_f = unpack_f [0, 0, 0, 0]"

text \<open>
  Exceptions as values: the two classes of \<open>exceptions.py\<close> that the modelled code
  raises, Python's built-in \<open>ValueError\<close> (the "InvalidArgument" of the
  specification), and \<open>PackError\<close> for what \<open>struct.pack\<close> may raise
  (\<open>OverflowError\<close> or \<open>struct.error\<close>).
\<close>

datatype error =
    DPS150ConnectionError
  | DPS150ProtocolError
  | ValueError
  | PackError

subsection \<open>constants.py\<close>

abbreviation (input) HEADER_INPUT :: byte where "HEADER_INPUT \<equiv> 0xF0"
abbreviation (input) HEADER_OUTPUT :: byte where "HEADER_OUTPUT \<equiv> 0xF1"

abbreviation (input) CMD_GET :: int where "CMD_GET \<equiv> 0xA1"
abbreviation (input) CMD_SET :: int where "CMD_SET \<equiv> 0xB1"

abbreviation (input) VOLTAGE_SET :: int where "VOLTAGE_SET \<equiv> 193"
abbreviation (input) CURRENT_SET :: int where "CURRENT_SET \<equiv> 194"
abbreviation (input) GROUP1_VOLTAGE_SET :: int where "GROUP1_VOLTAGE_SET \<equiv> 197"
abbreviation (input) GROUP1_CURRENT_SET :: int where "GROUP1_CURRENT_SET \<equiv> 198"
abbreviation (input) BRIGHTNESS :: int where "BRIGHTNESS \<equiv> 214"
abbreviation (input) VOLUME :: int where "VOLUME \<equiv> 215"
abbreviation (input) OUTPUT_ENABLE :: int where "OUTPUT_ENABLE \<equiv> 219"
abbreviation (input) INPUT_VOLTAGE :: int where "INPUT_VOLTAGE \<equiv> 192"
abbreviation (input) OUTPUT_VOLTAGE_CURRENT_POWER :: int where "OUTPUT_VOLTAGE_CURRENT_POWER \<equiv> 195"
abbreviation (input) TEMPERATURE :: int where "TEMPERATURE \<equiv> 196"
abbreviation (input) OUTPUT_CAPACITY :: int where "OUTPUT_CAPACITY \<equiv> 217"
abbreviation (input) OUTPUT_ENERGY :: int where "OUTPUT_ENERGY \<equiv> 218"
abbreviation (input) PROTECTION_STATE :: int where "PROTECTION_STATE \<equiv> 220"
abbreviation (input) MODE :: int where "MODE \<equiv> 221"
abbreviation (input) MODEL_NAME :: int where "MODEL_NAME \<equiv> 222"
abbreviation (input) HARDWARE_VERSION :: int where "HARDWARE_VERSION \<equiv> 223"
abbreviation (input) FIRMWARE_VERSION :: int where "FIRMWARE_VERSION \<equiv> 224"
abbreviation (input) UPPER_LIMIT_VOLTAGE :: int where "UPPER_LIMIT_VOLTAGE \<equiv> 226"
abbreviation (input) UPPER_LIMIT_CURRENT :: int where "UPPER_LIMIT_CURRENT \<equiv> 227"
abbreviation (input) ALL_STATE :: int where "ALL_STATE \<equiv> 255"

definition PROTECTION_STATES :: "string list" where
  "PROTECTION_STATES = [[], ''OVP'', ''OCP'', ''OPP'', ''OTP'', ''LVP'', ''REP'']"

section \<open>protocol.py\<close>

text \<open>Python's \<open>xs[i:j]\<close> for \<open>0 \<le> i \<le> j\<close>: the slice is clipped to the list.\<close>

definition py_slice :: "nat \<Rightarrow> nat \<Rightarrow> 'a list \<Rightarrow> 'a list" where
  "py_slice i j xs = take (j - i) (drop i xs)"

definition bytes_to_float :: "(byte list \<Rightarrow> 'f) \<Rightarrow> byte list \<Rightarrow> error + 'f" where
  "bytes_to_float unpack_f data =
     (if length data < 4 then Inl DPS150ProtocolError
      else Inr (unpack_f (py_slice 0 4 data)))"

text \<open>The header and the command are parameters that the body never reads.\<close>

definition calculate_checksum :: "byte \<Rightarrow> int \<Rightarrow> int \<Rightarrow> byte list \<Rightarrow> int" where
  "calculate_checksum header command type_code data =
     (let len = int (length data);
          checksum = type_code + len
      in foldl (\<lambda>checksum b. checksum + uint b) checksum data mod 256)"

text \<open>
  \<open>bytearray.append(v)\<close> raises \<open>ValueError\<close> unless \<open>0 \<le> v \<le> 255\<close>; the appends
  happen in the order header, command, type code, length, and the checksum, which is
  below 256 by construction, last.
\<close>

definition encode_packet :: "int \<Rightarrow> int \<Rightarrow> byte list \<Rightarrow> error + byte list" where
  "encode_packet command type_code data =
     (let len = int (length data) in
      if \<not> (0 \<le> command \<and> command \<le> 255) then Inl ValueError
      else if \<not> (0 \<le> type_code \<and> type_code \<le> 255) then Inl ValueError
      else if \<not> len \<le> 255 then Inl ValueError
      else
        let packet = [HEADER_OUTPUT, word_of_int command, word_of_int type_code, word_of_int len] @ data;
            checksum = calculate_checksum HEADER_OUTPUT command type_code data
        in Inr (packet @ [word_of_int checksum]))"

definition decode_packet :: "byte list \<Rightarrow> error + (int \<times> int \<times> int \<times> byte list)" where
  "decode_packet packet =
     (if length packet < 5 then Inl DPS150ProtocolError
      else if packet ! 0 \<noteq> HEADER_INPUT then Inl DPS150ProtocolError
      else
        let command = uint (packet ! 1);
            type_code = uint (packet ! 2);
            len = unat (packet ! 3);
            expected_length = 5 + len
        in if length packet < expected_length then Inl DPS150ProtocolError
           else
             let data = py_slice 4 (4 + len) packet;
                 checksum = uint (packet ! (4 + len));
                 calculated_checksum = calculate_checksum HEADER_INPUT command type_code data
             in if checksum \<noteq> calculated_checksum then Inl DPS150ProtocolError
                else Inr (command, type_code, int len, data))"

subsection \<open>PacketBuffer\<close>

text \<open>
  The buffer object holds one \<open>bytearray\<close>; \<open>append\<close> extends it. The scanning loop
  of \<open>extract_packets\<close> is the function \<open>scan_packets\<close> over the loop variables
  \<open>i\<close> and \<open>packets\<close>; it returns both when the loop ends or breaks. The loop
  condition is Python's integer comparison \<open>i < len(self.buffer) - 5\<close>, whose right side
  is negative for a buffer shorter than five bytes.
\<close>

definition PacketBuffer_append :: "byte list \<Rightarrow> byte list \<Rightarrow> byte list" where
  "PacketBuffer_append buffer data = buffer @ data"

function scan_packets :: "byte list \<Rightarrow> nat \<Rightarrow> byte list list \<Rightarrow> byte list list \<times> nat" where
  "scan_packets buffer i packets =
     (if int i < int (length buffer) - 5 then
        if buffer ! i = HEADER_INPUT then
          if i + 3 \<ge> length buffer then (packets, i)
          else
            let len = unat (buffer ! (i + 3));
                packet_length = 5 + len
            in if i + packet_length > length buffer then (packets, i)
               else scan_packets buffer (i + packet_length)
                      (packets @ [py_slice i (i + packet_length) buffer])
        else scan_packets buffer (i + 1) packets
      else (packets, i))"
  by pat_completeness auto
termination
  by (relation "measure (\<lambda>(buffer, i, packets). length buffer - i)") auto

declare scan_packets.simps [simp del]

text \<open>\<open>extract_packets\<close> returns the packets and leaves the new buffer behind: the pair
  of both.\<close>

definition extract_packets :: "byte list \<Rightarrow> byte list list \<times> byte list" where
  "extract_packets buffer =
     (case scan_packets buffer 0 [] of
        (packets, i) \<Rightarrow> (packets, if packets \<noteq> [] then drop i buffer else buffer))"

text \<open>The position at which the scan of one \<open>extract_packets\<close> call stops.\<close>

definition resume_point :: "byte list \<Rightarrow> nat" where
  "resume_point buffer = snd (scan_packets buffer 0 [])"

text \<open>
  A session of the framer as \<open>transport.py\<close> drives it: each received chunk is appended
  and \<open>extract_packets\<close> is called once; the packets of all calls are collected in order.
\<close>

fun feed_chunks :: "byte list \<Rightarrow> byte list list \<Rightarrow> byte list list \<times> byte list" where
  "feed_chunks buffer [] = ([], buffer)"
| "feed_chunks buffer (chunk # chunks) =
     (case extract_packets (PacketBuffer_append buffer chunk) of
        (packets, buffer') \<Rightarrow>
          (case feed_chunks buffer' chunks of
             (more, buffer'') \<Rightarrow> (packets @ more, buffer'')))"

text \<open>
  A well-formed inbound frame: \<open>decode_packet\<close> accepts it and it has no byte beyond
  its checksum, that is, it is exactly \<open>5 + length\<close> bytes long.
\<close>

definition well_formed_inbound :: "byte list \<Rightarrow> bool" where
  "well_formed_inbound frame \<longleftrightarrow>
     (case decode_packet frame of Inl e \<Rightarrow> False
      | Inr (command, type_code, len, data) \<Rightarrow> length frame = 5 + nat len)"

section \<open>models.py\<close>

text \<open>
  Python is dynamically typed: the parser produces a \<open>dict\<close> from string keys to floats,
  integers, booleans and strings, and \<open>update_from_dict\<close> stores whatever value it finds
  under a key. The values are the type \<open>pyval\<close>, the dictionary is an association list
  in insertion order (every key is written at most once), and the plainly assigned fields
  of \<open>DeviceState\<close> hold a \<open>pyval\<close>.
\<close>

datatype 'f pyval = VFloat 'f | VInt int | VBool bool | VStr string

type_synonym 'f pydict = "(string \<times> 'f pyval) list"

datatype ProtectionState = PS_NORMAL | PS_OVP | PS_OCP | PS_OPP | PS_OTP | PS_LVP | PS_REP

fun ProtectionState_value :: "ProtectionState \<Rightarrow> string" where
  "ProtectionState_value PS_NORMAL = []"
| "ProtectionState_value PS_OVP = ''OVP''"
| "ProtectionState_value PS_OCP = ''OCP''"
| "ProtectionState_value PS_OPP = ''OPP''"
| "ProtectionState_value PS_OTP = ''OTP''"
| "ProtectionState_value PS_LVP = ''LVP''"
| "ProtectionState_value PS_REP = ''REP''"

text \<open>\<open>from_string\<close> walks the members in declaration order and falls back to
  \<open>NORMAL\<close>.\<close>

definition from_string :: "'f pyval \<Rightarrow> ProtectionState" where
  "from_string v =
     (case find (\<lambda>state. VStr (ProtectionState_value state) = v)
             [PS_NORMAL, PS_OVP, PS_OCP, PS_OPP, PS_OTP, PS_LVP, PS_REP] of
        Some state \<Rightarrow> state
      | None \<Rightarrow> PS_NORMAL)"

datatype Mode = CC | CV

record 'f DeviceInfo =
  model_name :: "'f pyval"
  hardware_version :: "'f pyval"
  firmware_version :: "'f pyval"

definition DeviceInfo_default :: "'f DeviceInfo" where
  "DeviceInfo_default =
     \<lparr>model_name = VStr [], hardware_version = VStr [], firmware_version = VStr []\<rparr>"

record 'f DeviceState =
  input_voltage :: "'f pyval"
  output_voltage :: "'f pyval"
  output_current :: "'f pyval"
  output_power :: "'f pyval"
  temperature :: "'f pyval"
  set_voltage :: "'f pyval"
  set_current :: "'f pyval"
  group1_set_voltage :: "'f pyval"
  group1_set_current :: "'f pyval"
  group2_set_voltage :: "'f pyval"
  group2_set_current :: "'f pyval"
  group3_set_voltage :: "'f pyval"
  group3_set_current :: "'f pyval"
  group4_set_voltage :: "'f pyval"
  group4_set_current :: "'f pyval"
  group5_set_voltage :: "'f pyval"
  group5_set_current :: "'f pyval"
  group6_set_voltage :: "'f pyval"
  group6_set_current :: "'f pyval"
  over_voltage_protection :: "'f pyval"
  over_current_protection :: "'f pyval"
  over_power_protection :: "'f pyval"
  over_temperature_protection :: "'f pyval"
  low_voltage_protection :: "'f pyval"
  brightness :: "'f pyval"
  volume :: "'f pyval"
  metering_closed :: "'f pyval"
  output_capacity :: "'f pyval"
  output_energy :: "'f pyval"
  output_closed :: "'f pyval"
  protection_state :: ProtectionState
  mode :: Mode
  upper_limit_voltage :: "'f pyval"
  upper_limit_current :: "'f pyval"

definition DeviceState_default :: "(byte list \<Rightarrow> 'f) \<Rightarrow> 'f DeviceState" where
  "DeviceState_default unpack_f =
     \<lparr>input_voltage = VFloat (float_zero unpack_f), output_voltage = VFloat (float_zero unpack_f), output_current = VFloat (float_zero unpack_f),
      output_power = VFloat (float_zero unpack_f), temperature = VFloat (float_zero unpack_f),
      set_voltage = VFloat (float_zero unpack_f), set_current = VFloat (float_zero unpack_f),
      group1_set_voltage = VFloat (float_zero unpack_f), group1_set_current = VFloat (float_zero unpack_f),
      group2_set_voltage = VFloat (float_zero unpack_f), group2_set_current = VFloat (float_zero unpack_f),
      group3_set_voltage = VFloat (float_zero unpack_f), group3_set_current = VFloat (float_zero unpack_f),
      group4_set_voltage = VFloat (float_zero unpack_f), group4_set_current = VFloat (float_zero unpack_f),
      group5_set_voltage = VFloat (float_zero unpack_f), group5_set_current = VFloat (float_zero unpack_f),
      group6_set_voltage = VFloat (float_zero unpack_f), group6_set_current = VFloat (float_zero unpack_f),
      over_voltage_protection = VFloat (float_zero unpack_f), over_current_protection = VFloat (float_zero unpack_f),
      over_power_protection = VFloat (float_zero unpack_f), over_temperature_protection = VFloat (float_zero unpack_f),
      low_voltage_protection = VFloat (float_zero unpack_f),
      brightness = VInt 0, volume = VInt 0,
      metering_closed = VBool False, output_capacity = VFloat (float_zero unpack_f), output_energy = VFloat (float_zero unpack_f),
      output_closed = VBool False, protection_state = PS_NORMAL, mode = CV,
      upper_limit_voltage = VFloat (float_zero unpack_f), upper_limit_current = VFloat (float_zero unpack_f)\<rparr>"

text \<open>\<open>if key in data: self.field = data[key]\<close>, for one field.\<close>

definition assign_if_present ::
  "'f pydict \<Rightarrow> string \<Rightarrow> ('f pyval \<Rightarrow> 'f DeviceState \<Rightarrow> 'f DeviceState)
     \<Rightarrow> 'f DeviceState \<Rightarrow> 'f DeviceState" where
  "assign_if_present data key assign self =
     (case map_of data key of None \<Rightarrow> self | Some v \<Rightarrow> assign v self)"

text \<open>The thirty-four \<open>if\<close> statements of \<open>update_from_dict\<close>, run in their order.\<close>

definition update_from_dict :: "'f DeviceState \<Rightarrow> 'f pydict \<Rightarrow> 'f DeviceState" where
  "update_from_dict self data =
     (fold (\<lambda>step self. step self)
       [assign_if_present data ''inputVoltage'' (\<lambda>v s. s\<lparr>input_voltage := v\<rparr>),
        assign_if_present data ''outputVoltage'' (\<lambda>v s. s\<lparr>output_voltage := v\<rparr>),
        assign_if_present data ''outputCurrent'' (\<lambda>v s. s\<lparr>output_current := v\<rparr>),
        assign_if_present data ''outputPower'' (\<lambda>v s. s\<lparr>output_power := v\<rparr>),
        assign_if_present data ''temperature'' (\<lambda>v s. s\<lparr>temperature := v\<rparr>),
        assign_if_present data ''setVoltage'' (\<lambda>v s. s\<lparr>set_voltage := v\<rparr>),
        assign_if_present data ''setCurrent'' (\<lambda>v s. s\<lparr>set_current := v\<rparr>),
        assign_if_present data ''group1setVoltage'' (\<lambda>v s. s\<lparr>group1_set_voltage := v\<rparr>),
        assign_if_present data ''group1setCurrent'' (\<lambda>v s. s\<lparr>group1_set_current := v\<rparr>),
        assign_if_present data ''group2setVoltage'' (\<lambda>v s. s\<lparr>group2_set_voltage := v\<rparr>),
        assign_if_present data ''group2setCurrent'' (\<lambda>v s. s\<lparr>group2_set_current := v\<rparr>),
        assign_if_present data ''group3setVoltage'' (\<lambda>v s. s\<lparr>group3_set_voltage := v\<rparr>),
        assign_if_present data ''group3setCurrent'' (\<lambda>v s. s\<lparr>group3_set_current := v\<rparr>),
        assign_if_present data ''group4setVoltage'' (\<lambda>v s. s\<lparr>group4_set_voltage := v\<rparr>),
        assign_if_present data ''group4setCurrent'' (\<lambda>v s. s\<lparr>group4_set_current := v\<rparr>),
        assign_if_present data ''group5setVoltage'' (\<lambda>v s. s\<lparr>group5_set_voltage := v\<rparr>),
        assign_if_present data ''group5setCurrent'' (\<lambda>v s. s\<lparr>group5_set_current := v\<rparr>),
        assign_if_present data ''group6setVoltage'' (\<lambda>v s. s\<lparr>group6_set_voltage := v\<rparr>),
        assign_if_present data ''group6setCurrent'' (\<lambda>v s. s\<lparr>group6_set_current := v\<rparr>),
        assign_if_present data ''overVoltageProtection'' (\<lambda>v s. s\<lparr>over_voltage_protection := v\<rparr>),
        assign_if_present data ''overCurrentProtection'' (\<lambda>v s. s\<lparr>over_current_protection := v\<rparr>),
        assign_if_present data ''overPowerProtection'' (\<lambda>v s. s\<lparr>over_power_protection := v\<rparr>),
        assign_if_present data ''overTemperatureProtection''
          (\<lambda>v s. s\<lparr>over_temperature_protection := v\<rparr>),
        assign_if_present data ''lowVoltageProtection'' (\<lambda>v s. s\<lparr>low_voltage_protection := v\<rparr>),
        assign_if_present data ''brightness'' (\<lambda>v s. s\<lparr>brightness := v\<rparr>),
        assign_if_present data ''volume'' (\<lambda>v s. s\<lparr>volume := v\<rparr>),
        assign_if_present data ''meteringClosed'' (\<lambda>v s. s\<lparr>metering_closed := v\<rparr>),
        assign_if_present data ''outputCapacity'' (\<lambda>v s. s\<lparr>output_capacity := v\<rparr>),
        assign_if_present data ''outputEnergy'' (\<lambda>v s. s\<lparr>output_energy := v\<rparr>),
        assign_if_present data ''outputClosed'' (\<lambda>v s. s\<lparr>output_closed := v\<rparr>),
        assign_if_present data ''protectionState''
          (\<lambda>v s. s\<lparr>protection_state := from_string v\<rparr>),
        assign_if_present data ''mode''
          (\<lambda>v s. s\<lparr>mode := (if v = VStr ''CC'' then CC else CV)\<rparr>),
        assign_if_present data ''upperLimitVoltage'' (\<lambda>v s. s\<lparr>upper_limit_voltage := v\<rparr>),
        assign_if_present data ''upperLimitCurrent'' (\<lambda>v s. s\<lparr>upper_limit_current := v\<rparr>)]
       self)"

section \<open>device.py\<close>

subsection \<open>Parsing a received payload\<close>

text \<open>
  \<open>result[key] = bytes_to_float(data)\<close>: the exception of \<open>bytes_to_float\<close> is a
  \<open>DPS150ProtocolError\<close>, which the handler \<open>except (IndexError, struct.error,
  ValueError)\<close> of \<open>_parse_packet_data\<close> does not catch, so it leaves the function.
\<close>

definition float_entry ::
  "(byte list \<Rightarrow> 'f) \<Rightarrow> string \<Rightarrow> byte list \<Rightarrow> string \<times> (error + 'f pyval)" where
  "float_entry unpack_f key bs =
     (key, case bytes_to_float unpack_f bs of Inl e \<Rightarrow> Inl e | Inr v \<Rightarrow> Inr (VFloat v))"

text \<open>A dictionary display evaluates its values from first to last; the first exception
  ends the evaluation.\<close>

fun build_dict :: "(string \<times> (error + 'f pyval)) list \<Rightarrow> error + 'f pydict" where
  "build_dict [] = Inr []"
| "build_dict ((key, Inl e) # rest) = Inl e"
| "build_dict ((key, Inr v) # rest) =
     (case build_dict rest of Inl e \<Rightarrow> Inl e | Inr d \<Rightarrow> Inr ((key, v) # d))"

text \<open>
  The body of the \<open>try\<close> block: the \<open>if\<close>/\<open>elif\<close> chain over the type code, which
  fills \<open>result\<close>. The text decoder
  \<open>data.decode("utf-8", errors="ignore").rstrip("\x00").strip()\<close> is Python's own
  and is the parameter \<open>decode_str\<close>. Indexing is written \<open>!\<close> where the source has
  checked the length: \<open>data[0]\<close> is reached only for a non-empty payload, and every
  \<open>view[n]\<close> stands behind its own \<open>len(view) > n\<close>. None of the three exceptions that
  the handler catches can therefore arise, and the handler has no branch in the model.
\<close>

definition parse_fields ::
  "(byte list \<Rightarrow> 'f) \<Rightarrow> (byte list \<Rightarrow> string) \<Rightarrow> int \<Rightarrow> byte list \<Rightarrow> error + 'f pydict" where
  "parse_fields unpack_f decode_str type_code data =
     (if type_code = INPUT_VOLTAGE then build_dict [float_entry unpack_f ''inputVoltage'' data]
      else if type_code = OUTPUT_VOLTAGE_CURRENT_POWER then
        (if length data \<ge> 12 then
           build_dict
             [float_entry unpack_f ''outputVoltage'' (py_slice 0 4 data),
              float_entry unpack_f ''outputCurrent'' (py_slice 4 8 data),
              float_entry unpack_f ''outputPower'' (py_slice 8 12 data)]
         else Inr [])
      else if type_code = TEMPERATURE then build_dict [float_entry unpack_f ''temperature'' data]
      else if type_code = OUTPUT_CAPACITY then build_dict [float_entry unpack_f ''outputCapacity'' data]
      else if type_code = OUTPUT_ENERGY then build_dict [float_entry unpack_f ''outputEnergy'' data]
      else if type_code = OUTPUT_ENABLE then
        Inr [(''outputClosed'', VBool (uint (data ! 0) = 1))]
      else if type_code = PROTECTION_STATE then
        (let state_index = (if length data > 0 then uint (data ! 0) else 0) in
         if 0 \<le> state_index \<and> state_index < int (length PROTECTION_STATES) then
           Inr [(''protectionState'', VStr (PROTECTION_STATES ! nat state_index))]
         else Inr [])
      else if type_code = MODE then
        Inr [(''mode'', VStr (if uint (data ! 0) = 0 then ''CC'' else ''CV''))]
      else if type_code = MODEL_NAME then Inr [(''modelName'', VStr (decode_str data))]
      else if type_code = HARDWARE_VERSION then
        Inr [(''hardwareVersion'', VStr (decode_str data))]
      else if type_code = FIRMWARE_VERSION then
        Inr [(''firmwareVersion'', VStr (decode_str data))]
      else if type_code = UPPER_LIMIT_VOLTAGE then
        build_dict [float_entry unpack_f ''upperLimitVoltage'' data]
      else if type_code = UPPER_LIMIT_CURRENT then
        build_dict [float_entry unpack_f ''upperLimitCurrent'' data]
      else if type_code = ALL_STATE then
        (if length data \<ge> 139 then
           (let view = data in
            build_dict
              [float_entry unpack_f ''inputVoltage'' (py_slice 0 4 view),
               float_entry unpack_f ''setVoltage'' (py_slice 4 8 view),
               float_entry unpack_f ''setCurrent'' (py_slice 8 12 view),
               float_entry unpack_f ''outputVoltage'' (py_slice 12 16 view),
               float_entry unpack_f ''outputCurrent'' (py_slice 16 20 view),
               float_entry unpack_f ''outputPower'' (py_slice 20 24 view),
               float_entry unpack_f ''temperature'' (py_slice 24 28 view),
               float_entry unpack_f ''group1setVoltage'' (py_slice 28 32 view),
               float_entry unpack_f ''group1setCurrent'' (py_slice 32 36 view),
               float_entry unpack_f ''group2setVoltage'' (py_slice 36 40 view),
               float_entry unpack_f ''group2setCurrent'' (py_slice 40 44 view),
               float_entry unpack_f ''group3setVoltage'' (py_slice 44 48 view),
               float_entry unpack_f ''group3setCurrent'' (py_slice 48 52 view),
               float_entry unpack_f ''group4setVoltage'' (py_slice 52 56 view),
               float_entry unpack_f ''group4setCurrent'' (py_slice 56 60 view),
               float_entry unpack_f ''group5setVoltage'' (py_slice 60 64 view),
               float_entry unpack_f ''group5setCurrent'' (py_slice 64 68 view),
               float_entry unpack_f ''group6setVoltage'' (py_slice 68 72 view),
               float_entry unpack_f ''group6setCurrent'' (py_slice 72 76 view),
               float_entry unpack_f ''overVoltageProtection'' (py_slice 76 80 view),
               float_entry unpack_f ''overCurrentProtection'' (py_slice 80 84 view),
               float_entry unpack_f ''overPowerProtection'' (py_slice 84 88 view),
               float_entry unpack_f ''overTemperatureProtection'' (py_slice 88 92 view),
               float_entry unpack_f ''lowVoltageProtection'' (py_slice 92 96 view),
               (''brightness'', Inr (VInt (if length view > 96 then uint (view ! 96) else 0))),
               (''volume'', Inr (VInt (if length view > 97 then uint (view ! 97) else 0))),
               (''meteringClosed'',
                  Inr (VBool (if length view > 98 then uint (view ! 98) = 0 else False))),
               (if length view > 102 then float_entry unpack_f ''outputCapacity'' (py_slice 99 103 view)
                else (''outputCapacity'', Inr (VFloat (float_zero unpack_f)))),
               (if length view > 106 then float_entry unpack_f ''outputEnergy'' (py_slice 103 107 view)
                else (''outputEnergy'', Inr (VFloat (float_zero unpack_f)))),
               (''outputClosed'',
                  Inr (VBool (if length view > 107 then uint (view ! 107) = 1 else False))),
               (''protectionState'',
                  Inr (VStr (if length view > 108 \<and> 0 \<le> uint (view ! 108)
                                 \<and> uint (view ! 108) < int (length PROTECTION_STATES)
                             then PROTECTION_STATES ! nat (uint (view ! 108)) else []))),
               (''mode'',
                  Inr (VStr (if length view > 109 \<and> uint (view ! 109) = 0 then ''CC'' else ''CV''))),
               (if length view > 114 then float_entry unpack_f ''upperLimitVoltage'' (py_slice 111 115 view)
                else (''upperLimitVoltage'', Inr (VFloat (float_zero unpack_f)))),
               (if length view > 118 then float_entry unpack_f ''upperLimitCurrent'' (py_slice 115 119 view)
                else (''upperLimitCurrent'', Inr (VFloat (float_zero unpack_f))))])
         else Inr [])
      else Inr [])"

text \<open>\<open>_parse_packet_data\<close>: \<open>None\<close> for an empty payload and for an empty
  \<open>result\<close>, the dictionary otherwise.\<close>

definition parse_packet_data ::
  "(byte list \<Rightarrow> 'f) \<Rightarrow> (byte list \<Rightarrow> string) \<Rightarrow> int \<Rightarrow> byte list
     \<Rightarrow> error + 'f pydict option" where
  "parse_packet_data unpack_f decode_str type_code data =
     (if length data = 0 then Inr None
      else case parse_fields unpack_f decode_str type_code data of
             Inl e \<Rightarrow> Inl e
           | Inr result \<Rightarrow> Inr (if result \<noteq> [] then Some result else None))"

subsection \<open>The device object\<close>

text \<open>
  Of the transport the device uses the connection flag, the presence of a stream writer,
  and \<open>write\<close>; what has been handed to the writer is the list \<open>written\<close>, oldest
  first. Locks and the settle delays of \<open>asyncio.sleep\<close> order the writes and have no
  other effect here; a failure of the operating system's write is outside the model.
\<close>

record SerialTransport =
  connected :: bool
  has_writer :: bool
  written :: "byte list list"

text \<open>
  A registered callback is known by a number; calling it with the state is recorded in
  \<open>notified\<close>. A callback that raises is caught by the handler and leaves no other trace.
\<close>

record 'f DPS150 =
  transport :: "SerialTransport option"
  state :: "'f DeviceState"
  info :: "'f DeviceInfo"
  callbacks :: "nat list"
  notified :: "(nat \<times> 'f DeviceState) list"

text \<open>The device as \<open>__init__\<close> leaves it: no transport, default state and
  information, no callback.\<close>

definition DPS150_init :: "(byte list \<Rightarrow> 'f) \<Rightarrow> 'f DPS150" where
  "DPS150_init unpack_f =
     \<lparr>transport = None, state = DeviceState_default unpack_f, info = DeviceInfo_default,
      callbacks = [], notified = []\<rparr>"

text \<open>The result of an operation on the device: the exception or the return value, and
  the device as the operation leaves it, also when it raises.\<close>

type_synonym ('s, 'a) outcome = "(error + 'a) \<times> 's DPS150"

definition transport_write :: "SerialTransport \<Rightarrow> byte list \<Rightarrow> (error + unit) \<times> SerialTransport" where
  "transport_write self data =
     (if \<not> connected self \<or> \<not> has_writer self then (Inl DPS150ConnectionError, self)
      else (Inr (), self\<lparr>written := written self @ [data]\<rparr>))"

definition send_command ::
  "int \<Rightarrow> int \<Rightarrow> byte list \<Rightarrow> 's DPS150 \<Rightarrow> ('s, unit) outcome" where
  "send_command command type_code data self =
     (case transport self of
        None \<Rightarrow> (Inl DPS150ConnectionError, self)
      | Some t \<Rightarrow>
          if \<not> connected t then (Inl DPS150ConnectionError, self)
          else
            (case encode_packet command type_code data of
               Inl e \<Rightarrow> (Inl e, self)
             | Inr packet \<Rightarrow>
                 (case transport_write t packet of
                    (r, t') \<Rightarrow> (r, self\<lparr>transport := Some t'\<rparr>))))"

text \<open>Sequencing of two awaited calls: the second runs on the device the first left,
  unless the first raised.\<close>

definition and_then ::
  "('s, unit) outcome \<Rightarrow> ('s DPS150 \<Rightarrow> ('s, unit) outcome) \<Rightarrow> ('s, unit) outcome" where
  "and_then r f = (case r of (Inl e, self) \<Rightarrow> (Inl e, self) | (Inr u, self) \<Rightarrow> f self)"

definition on_packet_received ::
  "(byte list \<Rightarrow> 'f) \<Rightarrow> (byte list \<Rightarrow> string) \<Rightarrow> 'f DPS150 \<Rightarrow> int \<Rightarrow> int \<Rightarrow> byte list
     \<Rightarrow> 'f DPS150" where
  "on_packet_received unpack_f decode_str self command type_code data =
     (case parse_packet_data unpack_f decode_str type_code data of
        Inl e \<Rightarrow> self
      | Inr None \<Rightarrow> self
      | Inr (Some parsed_data) \<Rightarrow>
          if parsed_data = [] then self
          else
            let st = update_from_dict (state self) parsed_data;
                inf0 = info self;
                inf1 = (case map_of parsed_data ''modelName'' of
                          None \<Rightarrow> inf0 | Some v \<Rightarrow> inf0\<lparr>model_name := v\<rparr>);
                inf2 = (case map_of parsed_data ''hardwareVersion'' of
                          None \<Rightarrow> inf1 | Some v \<Rightarrow> inf1\<lparr>hardware_version := v\<rparr>);
                inf3 = (case map_of parsed_data ''firmwareVersion'' of
                          None \<Rightarrow> inf2 | Some v \<Rightarrow> inf2\<lparr>firmware_version := v\<rparr>)
            in self\<lparr>state := st, info := inf3,
                    notified := notified self @ map (\<lambda>callback. (callback, st)) (callbacks self)\<rparr>)"

text \<open>The body of the packet loop of \<open>SerialTransport._read_loop\<close>: a packet that
  \<open>decode_packet\<close> rejects is passed over, any other goes to the callback.\<close>

definition process_packet ::
  "(byte list \<Rightarrow> 'f) \<Rightarrow> (byte list \<Rightarrow> string) \<Rightarrow> 'f DPS150 \<Rightarrow> byte list \<Rightarrow> 'f DPS150" where
  "process_packet unpack_f decode_str self packet =
     (case decode_packet packet of
        Inl e \<Rightarrow> self
      | Inr (command, type_code, len, data_bytes) \<Rightarrow>
          on_packet_received unpack_f decode_str self command type_code data_bytes)"

subsection \<open>Writing methods\<close>

text \<open>
  \<open>struct.pack("<f", value)\<close> belongs to Python's \<open>struct\<close> module; it is the
  parameter \<open>pack_f\<close>, from the caller's float to four bytes or to the exception that
  \<open>struct\<close> raises for a value that has no single precision representation. The
  methods \<open>set_voltage\<close> and \<open>set_current\<close> carry the suffix \<open>_cmd\<close> here, their
  names being those of two fields of \<open>DeviceState\<close>.
\<close>

definition set_voltage_cmd ::
  "('f \<Rightarrow> error + byte list) \<Rightarrow> 'f \<Rightarrow> 's DPS150 \<Rightarrow> ('s, unit) outcome" where
  "set_voltage_cmd pack_f v self =
     (case pack_f v of
        Inl e \<Rightarrow> (Inl e, self)
      | Inr data \<Rightarrow> send_command CMD_SET VOLTAGE_SET data self)"

definition set_current_cmd ::
  "('f \<Rightarrow> error + byte list) \<Rightarrow> 'f \<Rightarrow> 's DPS150 \<Rightarrow> ('s, unit) outcome" where
  "set_current_cmd pack_f v self =
     (case pack_f v of
        Inl e \<Rightarrow> (Inl e, self)
      | Inr data \<Rightarrow> send_command CMD_SET CURRENT_SET data self)"

definition set_brightness :: "int \<Rightarrow> 's DPS150 \<Rightarrow> ('s, unit) outcome" where
  "set_brightness v self =
     (if \<not> (0 \<le> v \<and> v \<le> 10) then (Inl ValueError, self)
      else send_command CMD_SET BRIGHTNESS [word_of_int v] self)"

definition set_volume :: "int \<Rightarrow> 's DPS150 \<Rightarrow> ('s, unit) outcome" where
  "set_volume v self =
     (if \<not> (0 \<le> v \<and> v \<le> 10) then (Inl ValueError, self)
      else send_command CMD_SET VOLUME [word_of_int v] self)"

definition set_group ::
  "('f \<Rightarrow> error + byte list) \<Rightarrow> int \<Rightarrow> 'f \<Rightarrow> 'f \<Rightarrow> 's DPS150 \<Rightarrow> ('s, unit) outcome" where
  "set_group pack_f group_no voltage current self =
     (if \<not> (1 \<le> group_no \<and> group_no \<le> 6) then (Inl ValueError, self)
      else
        let voltage_type = GROUP1_VOLTAGE_SET + (group_no - 1) * 2;
            current_type = GROUP1_CURRENT_SET + (group_no - 1) * 2
        in and_then (set_voltage_cmd pack_f voltage self) (\<lambda>self.
           and_then (set_current_cmd pack_f current self) (\<lambda>self.
           and_then (case pack_f voltage of
                       Inl e \<Rightarrow> (Inl e, self)
                     | Inr data_v \<Rightarrow> send_command CMD_SET voltage_type data_v self) (\<lambda>self.
             (case pack_f current of
                Inl e \<Rightarrow> (Inl e, self)
              | Inr data_c \<Rightarrow> send_command CMD_SET current_type data_c self)))))"

section \<open>The packet codec\<close>

lemma foldl_checksum_sum:
  "foldl (\<lambda>c b. c + uint b) a (data :: byte list) = a + sum_list (map uint data)"
  by (induction data arbitrary: a) simp_all

lemma calculate_checksum_range:
  "0 \<le> calculate_checksum h c t d \<and> calculate_checksum h c t d < 256"
  by (simp add: calculate_checksum_def Let_def)

text \<open>
  C2. Round trip: for every command byte, type-code byte and payload of at most 255
  bytes, \<open>encode_packet\<close> returns a frame, and \<open>decode_packet\<close> applied to that frame
  with its first byte replaced by the inbound header 0xF0 returns the original command,
  type code and payload (with the payload's length); the frame's last byte is the
  checksum that \<open>decode_packet\<close> recomputes.
\<close>

theorem encode_decode_roundtrip:
  assumes "0 \<le> command" "command \<le> 255" "0 \<le> type_code" "type_code \<le> 255"
    and "length data \<le> 255"
  shows "\<exists>frame. encode_packet command type_code data = Inr frame
           \<and> decode_packet (frame[0 := HEADER_INPUT])
               = Inr (command, type_code, int (length data), data)
           \<and> uint (last frame) = calculate_checksum HEADER_INPUT command type_code data"
proof -
  let ?ck = "calculate_checksum HEADER_OUTPUT command type_code data"
  let ?frame = "[HEADER_OUTPUT, word_of_int command, word_of_int type_code,
                 word_of_int (int (length data))] @ data @ [word_of_int ?ck :: byte]"
  have enc: "encode_packet command type_code data = Inr ?frame"
    using assms by (simp add: encode_packet_def Let_def)
  have cmd: "uint (word_of_int command :: byte) = command"
    using assms by (simp add: uint_word_of_int)
  have tc: "uint (word_of_int type_code :: byte) = type_code"
    using assms by (simp add: uint_word_of_int)
  have len: "unat (word_of_int (int (length data)) :: byte) = length data"
    using assms by (simp add: unat_of_nat)
  have ck: "uint (word_of_int ?ck :: byte) = ?ck"
    using calculate_checksum_range [of HEADER_OUTPUT command type_code data]
    by (simp add: uint_word_of_int)
  have same: "calculate_checksum HEADER_INPUT command type_code data = ?ck"
    by (simp add: calculate_checksum_def)
  have nth_ck: "(data @ [word_of_int ?ck :: byte]) ! length data = word_of_int ?ck"
    by simp
  have dec: "decode_packet (?frame[0 := HEADER_INPUT])
               = Inr (command, type_code, int (length data), data)"
    using cmd tc len ck same nth_ck
    by (simp add: decode_packet_def Let_def py_slice_def nth_append)
  have "uint (last ?frame) = calculate_checksum HEADER_INPUT command type_code data"
    using ck same by simp
  with enc dec show ?thesis by blast
qed

theorem encode_decode_roundtrip_witness:
  "(0::int) \<le> 0xB1 \<and> (0xB1::int) \<le> 255 \<and> (0::int) \<le> 193 \<and> (193::int) \<le> 255
   \<and> length [0x00, 0x00, 0x40, 0x41 :: byte] \<le> 255
   \<and> encode_packet 0xB1 193 [0x00, 0x00, 0x40, 0x41]
        = Inr [0xF1, 0xB1, 193, 4, 0x00, 0x00, 0x40, 0x41, 70]
   \<and> decode_packet [0xF0, 0xB1, 193, 4, 0x00, 0x00, 0x40, 0x41, 70]
        = Inr (0xB1, 193, 4, [0x00, 0x00, 0x40, 0x41])"
  using encode_decode_roundtrip [of "0xB1" 193 "[0x00, 0x00, 0x40, 0x41]"]
  by (simp add: encode_packet_def calculate_checksum_def Let_def)

subsection \<open>Checksum sensitivity\<close>

lemma word_of_int_sum_uint:
  "word_of_int (sum_list (map uint (d :: byte list))) = (sum_list d :: byte)"
  by (induction d) simp_all

lemma word_of_int_mod_256: "(word_of_int (x mod 256) :: byte) = word_of_int x"
  by (simp add: word_of_int_eq_iff take_bit_eq_mod)

text \<open>The checksum is the sum of type code, length and payload in 8-bit arithmetic.\<close>

lemma checksum_word:
  "word_of_int (calculate_checksum h c t d)
     = (word_of_int t + word_of_nat (length d) + sum_list d :: byte)"
  by (simp add: calculate_checksum_def Let_def foldl_checksum_sum word_of_int_mod_256
      word_of_int_sum_uint)

lemma flip_bit_neq: "k < 8 \<Longrightarrow> flip_bit k (w :: byte) \<noteq> w"
  by (simp add: flip_bit_eq_idem_iff)

lemma unat_flip: "k < 8 \<Longrightarrow> unat (flip_bit k (w :: byte)) = flip_bit k (unat w)"
  by (rule bit_eqI) (auto simp add: bit_simps dest: bit_imp_le_length)

lemma flip_grows: "k < 8 \<Longrightarrow> \<not> bit (w :: byte) k \<Longrightarrow> unat w < unat (flip_bit k w)"
  by (simp add: unat_flip flip_bit_eq_if [of k "unat w"] set_bit_eq [of k "unat w"] bit_simps)

lemma flip_shrinks: "k < 8 \<Longrightarrow> bit (w :: byte) k \<Longrightarrow> unat (flip_bit k w) < unat w"
proof -
  assume k: "k < 8" and b: "bit w k"
  have twice: "flip_bit k (flip_bit k w) = w"
    by (rule bit_eqI) (auto simp add: bit_simps)
  have "\<not> bit (flip_bit k w) k"
    using b by (simp add: bit_simps)
  from flip_grows [OF k this] show ?thesis
    by (simp add: twice)
qed

lemma sum_list_upd:
  "j < length d \<Longrightarrow> sum_list (d[j := x]) = sum_list d - d ! j + (x :: byte)"
  by (induction d arbitrary: j) (auto split: nat.splits)

lemma well_formed_inboundD:
  assumes "well_formed_inbound frame"
  shows "5 \<le> length frame" "frame ! 0 = HEADER_INPUT"
    "length frame = 5 + unat (frame ! 3)"
    "uint (frame ! (4 + unat (frame ! 3)))
       = calculate_checksum HEADER_INPUT (uint (frame ! 1)) (uint (frame ! 2))
           (py_slice 4 (4 + unat (frame ! 3)) frame)"
    "decode_packet frame = Inr (uint (frame ! 1), uint (frame ! 2), int (unat (frame ! 3)),
        py_slice 4 (4 + unat (frame ! 3)) frame)"
  using assms
  by (simp_all add: well_formed_inbound_def decode_packet_def Let_def split: if_splits)

lemma checksum_eq_iff:
  "length d' = length d \<Longrightarrow>
   calculate_checksum h c t d' = calculate_checksum h c t d \<longleftrightarrow> sum_list d' = sum_list d"
proof
  assume len: "length d' = length d"
    and eq: "calculate_checksum h c t d' = calculate_checksum h c t d"
  have "(word_of_int (calculate_checksum h c t d') :: byte)
          = word_of_int (calculate_checksum h c t d)"
    using eq by simp
  then show "sum_list d' = sum_list d"
    using len by (simp add: checksum_word)
next
  assume len: "length d' = length d" and eq: "sum_list d' = sum_list d"
  have "(word_of_int (calculate_checksum h c t d') :: byte)
          = word_of_int (calculate_checksum h c t d)"
    using len eq by (simp add: checksum_word)
  then have "uint (word_of_int (calculate_checksum h c t d') :: byte)
           = uint (word_of_int (calculate_checksum h c t d) :: byte)"
    by simp
  then show "calculate_checksum h c t d' = calculate_checksum h c t d"
    using calculate_checksum_range [of h c t d] calculate_checksum_range [of h c t d']
    by (simp add: uint_word_of_int)
qed

lemma payload_flip_rejected:
  assumes wf: "well_formed_inbound frame" and k: "k < 8"
    and p: "4 \<le> p" "p < length frame - 1"
  shows "decode_packet (frame[p := flip_bit k (frame ! p)]) = Inl DPS150ProtocolError"
proof -
  let ?L = "unat (frame ! 3)"
  let ?d = "py_slice 4 (4 + ?L) frame"
  let ?f = "frame[p := flip_bit k (frame ! p)]"
  note D = well_formed_inboundD [OF wf]
  have pL: "p - 4 < ?L" using p D(3) by simp
  have d': "py_slice 4 (4 + ?L) ?f = ?d[p - 4 := flip_bit k (frame ! p)]"
    using p by (simp add: py_slice_def drop_update_swap take_update_swap)
  have dp: "?d ! (p - 4) = frame ! p"
    using p pL D(3) by (simp add: py_slice_def)
  have lend: "length ?d = ?L" using D(3) by (simp add: py_slice_def)
  have "sum_list (?d[p - 4 := flip_bit k (frame ! p)]) \<noteq> sum_list ?d"
    using pL lend dp flip_bit_neq [OF k, of "frame ! p"] by (simp add: sum_list_upd)
  then have ne: "calculate_checksum HEADER_INPUT (uint (frame ! 1)) (uint (frame ! 2))
                   (?d[p - 4 := flip_bit k (frame ! p)])
        \<noteq> calculate_checksum HEADER_INPUT (uint (frame ! 1)) (uint (frame ! 2)) ?d"
    using lend by (simp add: checksum_eq_iff)
  show ?thesis
    using p D(1,2,3) D(4) ne d'
    by (simp add: decode_packet_def Let_def)
qed

lemma length_flip_grow_rejected:
  assumes wf: "well_formed_inbound frame" and k: "k < 8"
    and b: "\<not> bit (frame ! 3) k"
  shows "decode_packet (frame[3 := flip_bit k (frame ! 3)]) = Inl DPS150ProtocolError"
  using well_formed_inboundD(1,3) [OF wf] flip_grows [OF k b]
  by (simp add: decode_packet_def Let_def)

lemma length_flip_shrink:
  assumes wf: "well_formed_inbound frame" and k: "k < 8"
    and b: "bit (frame ! 3) k"
  shows "decode_packet (frame[3 := flip_bit k (frame ! 3)]) =
     (let len' = unat (flip_bit k (frame ! 3));
          data' = py_slice 4 (4 + len') frame
      in if uint (frame ! (4 + len'))
              = calculate_checksum HEADER_INPUT (uint (frame ! 1)) (uint (frame ! 2)) data'
         then Inr (uint (frame ! 1), uint (frame ! 2), int len', data')
         else Inl DPS150ProtocolError)"
  using well_formed_inboundD(1,2,3) [OF wf] flip_shrinks [OF k b]
  by (simp add: decode_packet_def Let_def py_slice_def drop_update_cancel)

lemma command_flip_accepted:
  assumes wf: "well_formed_inbound frame"
  shows "decode_packet (frame[1 := flip_bit k (frame ! 1)]) =
      Inr (uint (flip_bit k (frame ! 1)), uint (frame ! 2), int (unat (frame ! 3)),
        py_slice 4 (4 + unat (frame ! 3)) frame)"
  using well_formed_inboundD(1,2,3,4) [OF wf]
  by (simp add: decode_packet_def Let_def py_slice_def drop_update_cancel calculate_checksum_def)

text \<open>A flipped header bit is refused by the header test, before any checksum is
  computed.\<close>

lemma header_flip_rejected:
  assumes wf: "well_formed_inbound frame" and k: "k < 8"
  shows "decode_packet (frame[0 := flip_bit k (frame ! 0)]) = Inl DPS150ProtocolError"
proof -
  have "0 < length frame" using well_formed_inboundD(1) [OF wf] by arith
  then have "frame[0 := flip_bit k (frame ! 0)] ! 0 \<noteq> HEADER_INPUT"
    using well_formed_inboundD(2) [OF wf] flip_bit_neq [OF k, of "frame ! 0"] by simp
  then show ?thesis
    by (simp add: decode_packet_def)
qed

text \<open>
  C3, as stated, fails for the length byte. The frame \<open>F0 A1 05 01 05 0B\<close> is well
  formed (type code 5, one payload byte 5, checksum 11). Flipping bit 0 of its length
  byte declares an empty payload; \<open>decode_packet\<close> then reads the payload byte 5 as the
  checksum, which equals type code + 0, and accepts the frame.
\<close>

theorem length_flip_accepted_counterexample:
  "well_formed_inbound [0xF0, 0xA1, 5, 1, 5, 11]
   \<and> decode_packet ([0xF0, 0xA1, 5, 1, 5, 11][3 := flip_bit 0 ([0xF0, 0xA1, 5, 1, 5, 11 :: byte] ! 3)])
       \<noteq> Inl DPS150ProtocolError
   \<and> decode_packet ([0xF0, 0xA1, 5, 1, 5, 11][3 := flip_bit 0 ([0xF0, 0xA1, 5, 1, 5, 11 :: byte] ! 3)])
       = Inr (0xA1, 5, 0, [])"
  by (simp add: well_formed_inbound_def decode_packet_def Let_def py_slice_def
      calculate_checksum_def flip_bit_eq_xor)

text \<open>
  C3, amended. For every well-formed inbound frame and every bit position \<open>k < 8\<close>:
  flipping bit \<open>k\<close> of any payload byte makes \<open>decode_packet\<close> fail with
  \<open>DPS150ProtocolError\<close>; flipping a clear bit of the length byte (the declared length
  grows) makes it fail with \<open>DPS150ProtocolError\<close>; flipping a set bit of the length byte
  (the declared length shrinks to \<open>len'\<close>) makes it fail unless the payload byte at
  offset \<open>len'\<close>, now read as the checksum, equals the checksum of the first \<open>len'\<close>
  payload bytes, in which case the truncated payload is returned; flipping a bit of the
  command byte leaves the frame accepted, with the flipped command and the same type code
  and payload; and \<open>calculate_checksum\<close> does not depend on its header and command
  arguments.
\<close>

theorem checksum_sensitivity:
  assumes wf: "well_formed_inbound frame" and k: "k < 8"
  shows "(\<forall>p. 4 \<le> p \<and> p < length frame - 1 \<longrightarrow>
            decode_packet (frame[p := flip_bit k (frame ! p)]) = Inl DPS150ProtocolError)
       \<and> (\<not> bit (frame ! 3) k \<longrightarrow>
            decode_packet (frame[3 := flip_bit k (frame ! 3)]) = Inl DPS150ProtocolError)
       \<and> (bit (frame ! 3) k \<longrightarrow>
            decode_packet (frame[3 := flip_bit k (frame ! 3)]) =
              (let len' = unat (flip_bit k (frame ! 3));
                   data' = py_slice 4 (4 + len') frame
               in if uint (frame ! (4 + len'))
                       = calculate_checksum HEADER_INPUT (uint (frame ! 1)) (uint (frame ! 2)) data'
                  then Inr (uint (frame ! 1), uint (frame ! 2), int len', data')
                  else Inl DPS150ProtocolError))
       \<and> decode_packet (frame[1 := flip_bit k (frame ! 1)]) =
            Inr (uint (flip_bit k (frame ! 1)), uint (frame ! 2), int (unat (frame ! 3)),
              py_slice 4 (4 + unat (frame ! 3)) frame)
       \<and> (\<forall>h c h' c' t d. calculate_checksum h' c' t d = calculate_checksum h c t d)"
proof -
  have a: "\<forall>p. 4 \<le> p \<and> p < length frame - 1 \<longrightarrow>
            decode_packet (frame[p := flip_bit k (frame ! p)]) = Inl DPS150ProtocolError"
    using payload_flip_rejected [OF wf k] by blast
  have e: "\<forall>h c h' c' t d. calculate_checksum h' c' t d = calculate_checksum h c t d"
    by (simp add: calculate_checksum_def)
  show ?thesis
    using a e length_flip_grow_rejected [OF wf k] length_flip_shrink [OF wf k]
      command_flip_accepted [OF wf, of k]
    by blast
qed

theorem checksum_sensitivity_witness:
  "well_formed_inbound [0xF0, 0xA1, 5, 1, 5, 11] \<and> (0 :: nat) < 8
   \<and> decode_packet [0xF0, 0xA1, 5, 1, 4, 11] = Inl DPS150ProtocolError
   \<and> decode_packet [0xF0, 0xA0, 5, 1, 5, 11] = Inr (0xA0, 5, 1, [5])"
proof -
  have wf: "well_formed_inbound [0xF0, 0xA1, 5, 1, 5, 11]"
    by (simp add: well_formed_inbound_def decode_packet_def Let_def py_slice_def
        calculate_checksum_def)
  have k: "(0 :: nat) < 8" by simp
  have f4: "flip_bit 0 (5 :: byte) = 4" and f1: "flip_bit 0 (0xA1 :: byte) = 0xA0"
    by (simp_all add: flip_bit_eq_xor)
  note T = checksum_sensitivity [OF wf k]
  have "decode_packet ([0xF0, 0xA1, 5, 1, 5, 11][4 := flip_bit 0 ([0xF0, 0xA1, 5, 1, 5, 11 :: byte] ! 4)])
          = Inl DPS150ProtocolError"
    using T [THEN conjunct1, rule_format, of 4] by simp
  then have p: "decode_packet [0xF0, 0xA1, 5, 1, 4, 11] = Inl DPS150ProtocolError"
    by (simp add: f4)
  have "decode_packet ([0xF0, 0xA1, 5, 1, 5, 11][1 := flip_bit 0 ([0xF0, 0xA1, 5, 1, 5, 11 :: byte] ! 1)])
          = Inr (uint (flip_bit 0 ([0xF0, 0xA1, 5, 1, 5, 11 :: byte] ! 1)),
                 uint ([0xF0, 0xA1, 5, 1, 5, 11 :: byte] ! 2),
                 int (unat ([0xF0, 0xA1, 5, 1, 5, 11 :: byte] ! 3)),
                 py_slice 4 (4 + unat ([0xF0, 0xA1, 5, 1, 5, 11 :: byte] ! 3)) [0xF0, 0xA1, 5, 1, 5, 11])"
    using T by blast
  then have c: "decode_packet [0xF0, 0xA0, 5, 1, 5, 11] = Inr (0xA0, 5, 1, [5])"
    by (simp add: f1 py_slice_def)
  show ?thesis
    using wf k p c by simp
qed

section \<open>The stream framer\<close>

text \<open>One step of the loop of \<open>extract_packets\<close>, case by case.\<close>

lemma scan_stop:
  "length buffer \<le> i + 5 \<Longrightarrow> scan_packets buffer i packets = (packets, i)"
  by (subst scan_packets.simps) simp

lemma scan_skip:
  "i + 5 < length buffer \<Longrightarrow> buffer ! i \<noteq> HEADER_INPUT \<Longrightarrow>
   scan_packets buffer i packets = scan_packets buffer (i + 1) packets"
  by (subst scan_packets.simps) simp

lemma scan_break:
  "i + 5 < length buffer \<Longrightarrow> buffer ! i = HEADER_INPUT \<Longrightarrow>
   length buffer < i + 5 + unat (buffer ! (i + 3)) \<Longrightarrow>
   scan_packets buffer i packets = (packets, i)"
  by (subst scan_packets.simps) (simp add: Let_def)

lemma scan_emit:
  "i + 5 < length buffer \<Longrightarrow> buffer ! i = HEADER_INPUT \<Longrightarrow>
   i + 5 + unat (buffer ! (i + 3)) \<le> length buffer \<Longrightarrow>
   scan_packets buffer i packets =
     scan_packets buffer (i + (5 + unat (buffer ! (i + 3))))
       (packets @ [py_slice i (i + (5 + unat (buffer ! (i + 3)))) buffer])"
  by (subst scan_packets.simps) (simp add: Let_def)

text \<open>
  Where the scan stops: inside the buffer, and either at most five bytes remain from
  there, or a sync byte stands there whose declared frame is not complete yet.
\<close>

lemma scan_packets_resume:
  "i \<le> length buffer \<Longrightarrow> scan_packets buffer i packets = (ps, j) \<Longrightarrow>
     i \<le> j \<and> j \<le> length buffer
     \<and> (length buffer \<le> j + 5 \<or> (buffer ! j = HEADER_INPUT \<and> length buffer < j + 5 + unat (buffer ! (j + 3))))"
proof (induction buffer i packets rule: scan_packets.induct)
  case (1 buffer i packets)
  show ?case
  proof (cases "i + 5 < length buffer")
    case False
    with "1.prems" show ?thesis by (simp add: scan_stop)
  next
    case True
    then have loop: "int i < int (length buffer) - 5" by simp
    show ?thesis
    proof (cases "buffer ! i = HEADER_INPUT")
      case hdr: True
      let ?pl = "5 + unat (buffer ! (i + 3))"
      have n3: "\<not> length buffer \<le> i + 3" using loop by simp
      show ?thesis
      proof (cases "i + ?pl > length buffer")
        case brk: True
        with True hdr "1.prems" show ?thesis by (simp add: scan_break)
      next
        case False
        then have le: "i + ?pl \<le> length buffer" by simp
        have rec: "scan_packets buffer (i + ?pl) (packets @ [py_slice i (i + ?pl) buffer]) = (ps, j)"
          using "1.prems"(2) True hdr le by (simp add: scan_emit)
        from "1.IH"(1) [OF loop hdr n3 refl refl False le rec]
        show ?thesis by simp
      qed
    next
      case nohdr: False
      have rec: "scan_packets buffer (i + 1) packets = (ps, j)"
        using "1.prems"(2) True nohdr by (simp add: scan_skip)
      have le: "i + 1 \<le> length buffer" using loop by simp
      from "1.IH"(2) [OF loop nohdr le rec] show ?thesis by simp
    qed
  qed
qed

lemma extract_packets_proper_prefix:
  assumes wf: "well_formed_inbound frame" and n: "n < length frame"
  shows "extract_packets (take n frame) = ([], take n frame)"
proof -
  note D = well_formed_inboundD [OF wf]
  have "scan_packets (take n frame) 0 [] = ([], 0)"
  proof (cases "5 < n")
    case False
    then show ?thesis by (simp add: scan_stop)
  next
    case True
    have h: "take n frame ! 0 = HEADER_INPUT" using True D(2) by simp
    have l: "take n frame ! (0 + 3) = frame ! 3" using True by simp
    show ?thesis
      using True n h l D(3) by (simp add: scan_break)
  qed
  then show ?thesis by (simp add: extract_packets_def)
qed

lemma extract_packets_whole:
  assumes wf: "well_formed_inbound frame" and nz: "frame ! 3 \<noteq> 0"
  shows "extract_packets frame = ([frame], [])"
proof -
  note D = well_formed_inboundD [OF wf]
  have L: "0 < unat (frame ! 3)" using nz by (simp add: unat_gt_0)
  have "scan_packets frame 0 [] =
      scan_packets frame (0 + (5 + unat (frame ! (0 + 3))))
        ([] @ [py_slice 0 (0 + (5 + unat (frame ! (0 + 3)))) frame])"
    using D(2,3) L by (intro scan_emit) simp_all
  also have "\<dots> = scan_packets frame (length frame) [frame]"
    using D(3) by (simp add: py_slice_def)
  also have "\<dots> = ([frame], length frame)"
    by (simp add: scan_stop)
  finally show ?thesis by (simp add: extract_packets_def)
qed

lemma feed_chunks_empty:
  "concat chunks = [] \<Longrightarrow> feed_chunks [] chunks = ([], [])"
  by (induction chunks) (simp_all add: PacketBuffer_append_def extract_packets_def scan_stop)

lemma feed_chunks_frame:
  assumes wf: "well_formed_inbound frame" and nz: "frame ! 3 \<noteq> 0"
  shows "length buffer < length frame \<Longrightarrow> buffer @ concat chunks = frame \<Longrightarrow>
         feed_chunks buffer chunks = ([frame], [])"
proof (induction chunks arbitrary: buffer)
  case Nil
  then show ?case by simp
next
  case (Cons c cs)
  show ?case
  proof (cases "length (buffer @ c) < length frame")
    case True
    have "take (length (buffer @ c)) frame = buffer @ c"
      using Cons.prems(2) by (metis append_assoc append_eq_conv_conj concat.simps(2))
    with extract_packets_proper_prefix [OF wf True]
    have "extract_packets (buffer @ c) = ([], buffer @ c)"
      by (simp only:)
    moreover have "feed_chunks (buffer @ c) cs = ([frame], [])"
      using Cons.IH [OF True] Cons.prems(2) by simp
    ultimately show ?thesis by (simp add: PacketBuffer_append_def)
  next
    case False
    have eq: "(buffer @ c) @ concat cs = frame" using Cons.prems(2) by simp
    then have "length (buffer @ c) + length (concat cs) = length frame"
      by (metis length_append)
    with False have "length (concat cs) = 0" by arith
    then have e: "concat cs = []" by (rule length_0_conv [THEN iffD1])
    with eq have "buffer @ c = frame" by simp
    then show ?thesis
      using extract_packets_whole [OF wf nz] feed_chunks_empty [OF e]
      by (simp add: PacketBuffer_append_def)
  qed
qed

text \<open>
  Fragmentation of a frame with a non-empty payload: however its bytes are cut into
  chunks (empty chunks included), the framer emits exactly the frame, once, and ends with
  an empty buffer.
\<close>

lemma framer_fragmentation_nonempty_payload:
  assumes "well_formed_inbound frame" and "frame ! 3 \<noteq> 0" and "concat chunks = frame"
  shows "feed_chunks [] chunks = ([frame], [])"
proof -
  have "length ([] :: byte list) < length frame"
    using well_formed_inboundD(1) [OF assms(1)] by auto
  then show ?thesis
    using feed_chunks_frame [OF assms(1,2), of "[]" chunks] assms(3) by simp
qed

text \<open>
  C4. The claim covers every payload length from 0 to 255. For the payload length 0 the
  code does not deliver: the well-formed five-byte frame \<open>F0 A1 C1 00 C1\<close> is never
  emitted, whether it is fed whole, byte by byte or in two parts, and stays in the buffer.
  The loop condition \<open>i < len(self.buffer) - 5\<close> asks for six remaining bytes where its
  comment asks for five.
\<close>

theorem framer_empty_payload_frame_not_extracted:
  "well_formed_inbound [0xF0, 0xA1, 0xC1, 0, 0xC1]
   \<and> feed_chunks [] [[0xF0, 0xA1, 0xC1, 0, 0xC1]] = ([], [0xF0, 0xA1, 0xC1, 0, 0xC1])
   \<and> feed_chunks [] [[0xF0], [0xA1], [0xC1], [0], [0xC1]] = ([], [0xF0, 0xA1, 0xC1, 0, 0xC1])
   \<and> feed_chunks [] [[0xF0, 0xA1], [0xC1, 0, 0xC1]] = ([], [0xF0, 0xA1, 0xC1, 0, 0xC1])"
  by (simp add: extract_packets_def PacketBuffer_append_def well_formed_inbound_def
      decode_packet_def Let_def py_slice_def calculate_checksum_def scan_packets.simps)

text \<open>
  C8, as stated, fails when a call emits no packet. On ten noise bytes the scan skips
  five of them (the resume point is 5) and emits nothing; the buffer keeps all ten bytes.
\<close>

theorem extract_keeps_noise_counterexample:
  "extract_packets [0, 0, 0, 0, 0, 0, 0, 0, 0, 0] = ([], [0, 0, 0, 0, 0, 0, 0, 0, 0, 0])
   \<and> resume_point [0, 0, 0, 0, 0, 0, 0, 0, 0, 0] = 5
   \<and> snd (extract_packets [0, 0, 0, 0, 0, 0, 0, 0, 0, 0])
        \<noteq> drop (resume_point [0, 0, 0, 0, 0, 0, 0, 0, 0, 0]) [0, 0, 0, 0, 0, 0, 0, 0, 0, 0]"
  by (simp add: extract_packets_def resume_point_def scan_packets.simps)

text \<open>
  C8, amended. After a call to \<open>extract_packets\<close> that emits at least one packet, the
  buffer is the old buffer without its first \<open>resume_point\<close> bytes: everything the scan
  consumed, skipped noise included, is dropped, and the bytes from the resume point on
  are retained. After a call that emits no packet the buffer is unchanged. The resume
  point lies inside the buffer, and what follows it is at most five bytes or the start of
  a frame (a sync byte) whose declared length exceeds the bytes present.
\<close>

theorem extract_packets_drops_consumed:
  assumes "extract_packets buffer = (packets, buffer')"
  shows "(packets \<noteq> [] \<longrightarrow> buffer' = drop (resume_point buffer) buffer)
       \<and> (packets = [] \<longrightarrow> buffer' = buffer)
       \<and> resume_point buffer \<le> length buffer
       \<and> (let rest = drop (resume_point buffer) buffer
          in length rest \<le> 5
             \<or> (rest ! 0 = HEADER_INPUT \<and> length rest < 5 + unat (rest ! 3)))"
proof -
  obtain ps j where sc: "scan_packets buffer 0 [] = (ps, j)"
    by (cases "scan_packets buffer 0 []")
  then have r: "resume_point buffer = j"
    by (simp add: resume_point_def)
  from scan_packets_resume [OF _ sc]
  have j: "j \<le> length buffer"
    and tail: "length buffer \<le> j + 5
       \<or> (buffer ! j = HEADER_INPUT \<and> length buffer < j + 5 + unat (buffer ! (j + 3)))"
    by simp_all
  have bufs: "(packets \<noteq> [] \<longrightarrow> buffer' = drop j buffer) \<and> (packets = [] \<longrightarrow> buffer' = buffer)"
    using assms sc by (auto simp add: extract_packets_def)
  have rest: "length (drop j buffer) \<le> 5
       \<or> (drop j buffer ! 0 = HEADER_INPUT \<and> length (drop j buffer) < 5 + unat (drop j buffer ! 3))"
  proof (cases "length buffer \<le> j + 5")
    case True
    then have "length (drop j buffer) \<le> 5" by simp
    then show ?thesis by (rule disjI1)
  next
    case False
    with tail have h: "buffer ! j = HEADER_INPUT"
      and l: "length buffer < j + 5 + unat (buffer ! (j + 3))" by simp_all
    have "drop j buffer ! 0 = HEADER_INPUT"
      using False h by simp
    moreover have "length (drop j buffer) < 5 + unat (drop j buffer ! 3)"
      using False l by simp
    ultimately show ?thesis by blast
  qed
  show ?thesis
    using bufs j rest by (simp add: r Let_def)
qed

theorem extract_packets_drops_consumed_witness:
  "extract_packets [0, 0xF0, 0xA1, 0xC1, 1, 2, 0xC4, 0xF0, 0xA1]
     = ([[0xF0, 0xA1, 0xC1, 1, 2, 0xC4]], [0xF0, 0xA1])
   \<and> [0xF0, 0xA1 :: byte] = drop (resume_point [0, 0xF0, 0xA1, 0xC1, 1, 2, 0xC4, 0xF0, 0xA1])
        [0, 0xF0, 0xA1, 0xC1, 1, 2, 0xC4, 0xF0, 0xA1]"
proof -
  have e: "extract_packets [0, 0xF0, 0xA1, 0xC1, 1, 2, 0xC4, 0xF0, 0xA1]
     = ([[0xF0, 0xA1, 0xC1, 1, 2, 0xC4]], [0xF0, 0xA1])"
    by (simp add: extract_packets_def scan_packets.simps py_slice_def)
  from extract_packets_drops_consumed [OF e] show ?thesis
    using e by simp
qed

section \<open>Typed values\<close>

text \<open>
  C6, as stated, fails on the kind of error: for fewer than four bytes
  \<open>bytes_to_float\<close> raises \<open>DPS150ProtocolError\<close>, not the \<open>ValueError\<close> with which
  the library reports an invalid argument. (The float reader plays no part; it is
  instantiated with the identity.)
\<close>

theorem bytes_to_float_short_counterexample:
  "bytes_to_float id [1, 2, 3] = Inl DPS150ProtocolError
   \<and> bytes_to_float id [1, 2, 3] \<noteq> Inl ValueError"
  by (simp add: bytes_to_float_def)

lemma take_four:
  "4 \<le> length data \<Longrightarrow> take 4 data = [data ! 0, data ! 1, data ! 2, data ! 3]"
  by (cases data; cases "tl data"; cases "tl (tl data)"; cases "tl (tl (tl data))") auto

text \<open>
  C6, amended. For every input of fewer than four bytes \<open>bytes_to_float\<close> fails with
  \<open>DPS150ProtocolError\<close>; for an input of four or more bytes it returns what
  \<open>struct.unpack("<f", \<dots>)\<close> yields for exactly the first four bytes, in their order,
  whatever follows them. How \<open>struct.unpack\<close> reads the four bytes as a number is its
  own matter and holds for every reader \<open>unpack_f\<close>.
\<close>

theorem bytes_to_float_cases:
  "(length data < 4 \<longrightarrow> bytes_to_float unpack_f data = Inl DPS150ProtocolError)
   \<and> (4 \<le> length data \<longrightarrow>
        bytes_to_float unpack_f data = Inr (unpack_f [data ! 0, data ! 1, data ! 2, data ! 3]))"
  by (simp add: bytes_to_float_def py_slice_def take_four)

theorem bytes_to_float_cases_witness:
  "bytes_to_float id [1, 2, 3] = Inl DPS150ProtocolError
   \<and> bytes_to_float id [0, 0, 0x40, 0x41, 7] = Inr [0, 0, 0x40, 0x41]"
  using bytes_to_float_cases [of "[1, 2, 3]" id] bytes_to_float_cases [of "[0, 0, 0x40, 0x41, 7]" id]
  by simp

text \<open>
  The kind of the error can be observed: inside \<open>_parse_packet_data\<close> a
  \<open>ValueError\<close> would be caught and turned into \<open>None\<close>, whereas the error of
  \<open>bytes_to_float\<close> on a short input-voltage payload leaves the parser.
\<close>

lemma short_float_payload_escapes_parser:
  "parse_packet_data unpack_f decode_str INPUT_VOLTAGE [1, 2, 3] = Inl DPS150ProtocolError"
  by (simp add: parse_packet_data_def parse_fields_def float_entry_def bytes_to_float_def)

section \<open>Receiving: the field decoder and the state\<close>

text \<open>
  C10. An inbound payload of length zero produces no update: the handler returns the
  device as it was, so every field of the state and of the device information is
  unchanged and no callback is recorded as called. The same holds for a whole frame whose
  length byte is zero, whether \<open>decode_packet\<close> accepts it or not.
\<close>

theorem empty_payload_no_update:
  "on_packet_received unpack_f decode_str self command type_code [] = self
   \<and> (packet ! 3 = 0 \<longrightarrow> process_packet unpack_f decode_str self packet = self)"
proof -
  have a: "\<And>c t. on_packet_received unpack_f decode_str self c t [] = self"
    by (simp add: on_packet_received_def parse_packet_data_def)
  have "packet ! 3 = 0 \<Longrightarrow> process_packet unpack_f decode_str self packet = self"
    by (simp add: process_packet_def decode_packet_def Let_def py_slice_def a split: sum.splits)
  with a show ?thesis by simp
qed

theorem empty_payload_no_update_witness:
  "decode_packet [0xF0, 0xA1, 220, 0, 220] = Inr (0xA1, 220, 0, [])
   \<and> process_packet id (map (char_of \<circ> unat)) ((DPS150_init id)\<lparr>callbacks := [0, 1]\<rparr>)
        [0xF0, 0xA1, 220, 0, 220] = (DPS150_init id)\<lparr>callbacks := [0, 1]\<rparr>"
  using empty_payload_no_update [of id "map (char_of \<circ> unat)"
       "(DPS150_init id)\<lparr>callbacks := [0, 1]\<rparr>" CMD_GET PROTECTION_STATE
       "[0xF0, 0xA1, 220, 0, 220]"]
  by (simp add: decode_packet_def Let_def py_slice_def calculate_checksum_def)

subsection \<open>The all-state payload\<close>

lemma float_entry_slice:
  "i + 4 \<le> length data \<Longrightarrow> j = i + 4 \<Longrightarrow>
   float_entry unpack_f key (py_slice i j data)
     = (key, Inr (VFloat (unpack_f (py_slice i j data))))"
  by (simp add: float_entry_def bytes_to_float_def py_slice_def)

text \<open>From 139 bytes on, the parser returns all thirty-four keys, every value read at its
  offset.\<close>

lemma parse_all_state_full:
  assumes "139 \<le> length data"
  shows "parse_packet_data unpack_f decode_str ALL_STATE data = Inr (Some
     [(''inputVoltage'', VFloat (unpack_f (py_slice 0 4 data))),
      (''setVoltage'', VFloat (unpack_f (py_slice 4 8 data))),
      (''setCurrent'', VFloat (unpack_f (py_slice 8 12 data))),
      (''outputVoltage'', VFloat (unpack_f (py_slice 12 16 data))),
      (''outputCurrent'', VFloat (unpack_f (py_slice 16 20 data))),
      (''outputPower'', VFloat (unpack_f (py_slice 20 24 data))),
      (''temperature'', VFloat (unpack_f (py_slice 24 28 data))),
      (''group1setVoltage'', VFloat (unpack_f (py_slice 28 32 data))),
      (''group1setCurrent'', VFloat (unpack_f (py_slice 32 36 data))),
      (''group2setVoltage'', VFloat (unpack_f (py_slice 36 40 data))),
      (''group2setCurrent'', VFloat (unpack_f (py_slice 40 44 data))),
      (''group3setVoltage'', VFloat (unpack_f (py_slice 44 48 data))),
      (''group3setCurrent'', VFloat (unpack_f (py_slice 48 52 data))),
      (''group4setVoltage'', VFloat (unpack_f (py_slice 52 56 data))),
      (''group4setCurrent'', VFloat (unpack_f (py_slice 56 60 data))),
      (''group5setVoltage'', VFloat (unpack_f (py_slice 60 64 data))),
      (''group5setCurrent'', VFloat (unpack_f (py_slice 64 68 data))),
      (''group6setVoltage'', VFloat (unpack_f (py_slice 68 72 data))),
      (''group6setCurrent'', VFloat (unpack_f (py_slice 72 76 data))),
      (''overVoltageProtection'', VFloat (unpack_f (py_slice 76 80 data))),
      (''overCurrentProtection'', VFloat (unpack_f (py_slice 80 84 data))),
      (''overPowerProtection'', VFloat (unpack_f (py_slice 84 88 data))),
      (''overTemperatureProtection'', VFloat (unpack_f (py_slice 88 92 data))),
      (''lowVoltageProtection'', VFloat (unpack_f (py_slice 92 96 data))),
      (''brightness'', VInt (uint (data ! 96))),
      (''volume'', VInt (uint (data ! 97))),
      (''meteringClosed'', VBool (uint (data ! 98) = 0)),
      (''outputCapacity'', VFloat (unpack_f (py_slice 99 103 data))),
      (''outputEnergy'', VFloat (unpack_f (py_slice 103 107 data))),
      (''outputClosed'', VBool (uint (data ! 107) = 1)),
      (''protectionState'', VStr (if uint (data ! 108) < 7 then PROTECTION_STATES ! nat (uint (data ! 108)) else [])),
      (''mode'', VStr (if uint (data ! 109) = 0 then ''CC'' else ''CV'')),
      (''upperLimitVoltage'', VFloat (unpack_f (py_slice 111 115 data))),
      (''upperLimitCurrent'', VFloat (unpack_f (py_slice 115 119 data)))])"
proof -
  have ne: "data \<noteq> []" using assms by auto
  have ps: "length PROTECTION_STATES = 7" by (simp add: PROTECTION_STATES_def)
  show ?thesis
    using assms ne
    by (simp add: parse_packet_data_def parse_fields_def Let_def float_entry_slice ps)
qed

text \<open>\<open>update_from_dict\<close> on a dictionary with all thirty-four keys overwrites every
  field.\<close>

lemma update_from_dict_all:
  "update_from_dict st
     [(''inputVoltage'', iv),
      (''setVoltage'', sv),
      (''setCurrent'', sc),
      (''outputVoltage'', ov),
      (''outputCurrent'', oc),
      (''outputPower'', op),
      (''temperature'', te),
      (''group1setVoltage'', g1v),
      (''group1setCurrent'', g1c),
      (''group2setVoltage'', g2v),
      (''group2setCurrent'', g2c),
      (''group3setVoltage'', g3v),
      (''group3setCurrent'', g3c),
      (''group4setVoltage'', g4v),
      (''group4setCurrent'', g4c),
      (''group5setVoltage'', g5v),
      (''group5setCurrent'', g5c),
      (''group6setVoltage'', g6v),
      (''group6setCurrent'', g6c),
      (''overVoltageProtection'', ovp),
      (''overCurrentProtection'', ocp),
      (''overPowerProtection'', opp),
      (''overTemperatureProtection'', otp),
      (''lowVoltageProtection'', lvp),
      (''brightness'', br),
      (''volume'', vo),
      (''meteringClosed'', mc),
      (''outputCapacity'', oca),
      (''outputEnergy'', oen),
      (''outputClosed'', ocl),
      (''protectionState'', ps),
      (''mode'', mo),
      (''upperLimitVoltage'', ulv),
      (''upperLimitCurrent'', ulc)]
   = \<lparr>input_voltage = iv,
      output_voltage = ov,
      output_current = oc,
      output_power = op,
      temperature = te,
      set_voltage = sv,
      set_current = sc,
      group1_set_voltage = g1v,
      group1_set_current = g1c,
      group2_set_voltage = g2v,
      group2_set_current = g2c,
      group3_set_voltage = g3v,
      group3_set_current = g3c,
      group4_set_voltage = g4v,
      group4_set_current = g4c,
      group5_set_voltage = g5v,
      group5_set_current = g5c,
      group6_set_voltage = g6v,
      group6_set_current = g6c,
      over_voltage_protection = ovp,
      over_current_protection = ocp,
      over_power_protection = opp,
      over_temperature_protection = otp,
      low_voltage_protection = lvp,
      brightness = br,
      volume = vo,
      metering_closed = mc,
      output_capacity = oca,
      output_energy = oen,
      output_closed = ocl,
      protection_state = from_string ps,
      mode = (if mo = VStr ''CC'' then CC else CV),
      upper_limit_voltage = ulv,
      upper_limit_current = ulc\<rparr>"
  by (simp add: update_from_dict_def assign_if_present_def)

lemma map_of_all_state_info:
  "map_of
     [(''inputVoltage'', iv),
      (''setVoltage'', sv),
      (''setCurrent'', sc),
      (''outputVoltage'', ov),
      (''outputCurrent'', oc),
      (''outputPower'', op),
      (''temperature'', te),
      (''group1setVoltage'', g1v),
      (''group1setCurrent'', g1c),
      (''group2setVoltage'', g2v),
      (''group2setCurrent'', g2c),
      (''group3setVoltage'', g3v),
      (''group3setCurrent'', g3c),
      (''group4setVoltage'', g4v),
      (''group4setCurrent'', g4c),
      (''group5setVoltage'', g5v),
      (''group5setCurrent'', g5c),
      (''group6setVoltage'', g6v),
      (''group6setCurrent'', g6c),
      (''overVoltageProtection'', ovp),
      (''overCurrentProtection'', ocp),
      (''overPowerProtection'', opp),
      (''overTemperatureProtection'', otp),
      (''lowVoltageProtection'', lvp),
      (''brightness'', br),
      (''volume'', vo),
      (''meteringClosed'', mc),
      (''outputCapacity'', oca),
      (''outputEnergy'', oen),
      (''outputClosed'', ocl),
      (''protectionState'', ps),
      (''mode'', mo),
      (''upperLimitVoltage'', ulv),
      (''upperLimitCurrent'', ulc)] ''modelName'' = None"
  "map_of
     [(''inputVoltage'', iv),
      (''setVoltage'', sv),
      (''setCurrent'', sc),
      (''outputVoltage'', ov),
      (''outputCurrent'', oc),
      (''outputPower'', op),
      (''temperature'', te),
      (''group1setVoltage'', g1v),
      (''group1setCurrent'', g1c),
      (''group2setVoltage'', g2v),
      (''group2setCurrent'', g2c),
      (''group3setVoltage'', g3v),
      (''group3setCurrent'', g3c),
      (''group4setVoltage'', g4v),
      (''group4setCurrent'', g4c),
      (''group5setVoltage'', g5v),
      (''group5setCurrent'', g5c),
      (''group6setVoltage'', g6v),
      (''group6setCurrent'', g6c),
      (''overVoltageProtection'', ovp),
      (''overCurrentProtection'', ocp),
      (''overPowerProtection'', opp),
      (''overTemperatureProtection'', otp),
      (''lowVoltageProtection'', lvp),
      (''brightness'', br),
      (''volume'', vo),
      (''meteringClosed'', mc),
      (''outputCapacity'', oca),
      (''outputEnergy'', oen),
      (''outputClosed'', ocl),
      (''protectionState'', ps),
      (''mode'', mo),
      (''upperLimitVoltage'', ulv),
      (''upperLimitCurrent'', ulc)] ''hardwareVersion'' = None"
  "map_of
     [(''inputVoltage'', iv),
      (''setVoltage'', sv),
      (''setCurrent'', sc),
      (''outputVoltage'', ov),
      (''outputCurrent'', oc),
      (''outputPower'', op),
      (''temperature'', te),
      (''group1setVoltage'', g1v),
      (''group1setCurrent'', g1c),
      (''group2setVoltage'', g2v),
      (''group2setCurrent'', g2c),
      (''group3setVoltage'', g3v),
      (''group3setCurrent'', g3c),
      (''group4setVoltage'', g4v),
      (''group4setCurrent'', g4c),
      (''group5setVoltage'', g5v),
      (''group5setCurrent'', g5c),
      (''group6setVoltage'', g6v),
      (''group6setCurrent'', g6c),
      (''overVoltageProtection'', ovp),
      (''overCurrentProtection'', ocp),
      (''overPowerProtection'', opp),
      (''overTemperatureProtection'', otp),
      (''lowVoltageProtection'', lvp),
      (''brightness'', br),
      (''volume'', vo),
      (''meteringClosed'', mc),
      (''outputCapacity'', oca),
      (''outputEnergy'', oen),
      (''outputClosed'', ocl),
      (''protectionState'', ps),
      (''mode'', mo),
      (''upperLimitVoltage'', ulv),
      (''upperLimitCurrent'', ulc)] ''firmwareVersion'' = None"
  by simp_all

lemma byte_le_6_cases:
  assumes "uint (b :: byte) \<le> 6"
  shows "b = 0 \<or> b = 1 \<or> b = 2 \<or> b = 3 \<or> b = 4 \<or> b = 5 \<or> b = 6"
proof -
  have "0 \<le> uint b" by simp
  with assms have "uint b = 0 \<or> uint b = 1 \<or> uint b = 2 \<or> uint b = 3 \<or> uint b = 4
      \<or> uint b = 5 \<or> uint b = 6" by arith
  then show ?thesis
    by (auto simp add: word_uint_eq_iff)
qed

text \<open>The string that the all-state branch stores for the protection state, read back by
  \<open>from_string\<close>: the member at the index, and \<open>NORMAL\<close> for an index outside the
  table.\<close>

lemma from_string_all_state:
  "from_string (VStr (if uint (b :: byte) < 7 then PROTECTION_STATES ! nat (uint b) else []))
     = (if uint b < 7
        then [PS_NORMAL, PS_OVP, PS_OCP, PS_OPP, PS_OTP, PS_LVP, PS_REP] ! nat (uint b)
        else PS_NORMAL)"
proof (cases "uint b < 7")
  case False
  then show ?thesis by (simp add: from_string_def)
next
  case True
  then have "uint b \<le> 6" by simp
  from byte_le_6_cases [OF this] show ?thesis
    by (auto simp add: from_string_def PROTECTION_STATES_def)
qed

lemma mode_all_state:
  "(if (VStr (if uint (b :: byte) = 0 then ''CC'' else ''CV'') :: 'f pyval) = VStr ''CC''
    then CC else CV) = (if uint b = 0 then CC else CV)"
  by simp

text \<open>The handler on an all-state payload of at least 139 bytes: every field of the
  state is overwritten with the value at its offset, the device information is kept, and
  each callback is called once with the new state.\<close>

lemma on_packet_received_all_state_full:
  assumes "139 \<le> length data"
  shows "on_packet_received unpack_f decode_str self command ALL_STATE data =
     (let st =
        \<lparr>input_voltage = VFloat (unpack_f (py_slice 0 4 data)),
          output_voltage = VFloat (unpack_f (py_slice 12 16 data)),
          output_current = VFloat (unpack_f (py_slice 16 20 data)),
          output_power = VFloat (unpack_f (py_slice 20 24 data)),
          temperature = VFloat (unpack_f (py_slice 24 28 data)),
          set_voltage = VFloat (unpack_f (py_slice 4 8 data)),
          set_current = VFloat (unpack_f (py_slice 8 12 data)),
          group1_set_voltage = VFloat (unpack_f (py_slice 28 32 data)),
          group1_set_current = VFloat (unpack_f (py_slice 32 36 data)),
          group2_set_voltage = VFloat (unpack_f (py_slice 36 40 data)),
          group2_set_current = VFloat (unpack_f (py_slice 40 44 data)),
          group3_set_voltage = VFloat (unpack_f (py_slice 44 48 data)),
          group3_set_current = VFloat (unpack_f (py_slice 48 52 data)),
          group4_set_voltage = VFloat (unpack_f (py_slice 52 56 data)),
          group4_set_current = VFloat (unpack_f (py_slice 56 60 data)),
          group5_set_voltage = VFloat (unpack_f (py_slice 60 64 data)),
          group5_set_current = VFloat (unpack_f (py_slice 64 68 data)),
          group6_set_voltage = VFloat (unpack_f (py_slice 68 72 data)),
          group6_set_current = VFloat (unpack_f (py_slice 72 76 data)),
          over_voltage_protection = VFloat (unpack_f (py_slice 76 80 data)),
          over_current_protection = VFloat (unpack_f (py_slice 80 84 data)),
          over_power_protection = VFloat (unpack_f (py_slice 84 88 data)),
          over_temperature_protection = VFloat (unpack_f (py_slice 88 92 data)),
          low_voltage_protection = VFloat (unpack_f (py_slice 92 96 data)),
          brightness = VInt (uint (data ! 96)),
          volume = VInt (uint (data ! 97)),
          metering_closed = VBool (uint (data ! 98) = 0),
          output_capacity = VFloat (unpack_f (py_slice 99 103 data)),
          output_energy = VFloat (unpack_f (py_slice 103 107 data)),
          output_closed = VBool (uint (data ! 107) = 1),
          protection_state = (if uint (data ! 108) < 7
            then [PS_NORMAL, PS_OVP, PS_OCP, PS_OPP, PS_OTP, PS_LVP, PS_REP] ! nat (uint (data ! 108))
            else PS_NORMAL),
          mode = (if uint (data ! 109) = 0 then CC else CV),
          upper_limit_voltage = VFloat (unpack_f (py_slice 111 115 data)),
          upper_limit_current = VFloat (unpack_f (py_slice 115 119 data))\<rparr>
      in self\<lparr>state := st,
              notified := notified self @ map (\<lambda>callback. (callback, st)) (callbacks self)\<rparr>)"
  unfolding on_packet_received_def parse_all_state_full [OF assms]
  by (simp only: update_from_dict_all map_of_all_state_info from_string_all_state
      mode_all_state Let_def sum.case option.case list.simps if_False)
    simp

text \<open>
  C1, as stated, fails. A 100-byte all-state payload that carries the input voltage 12.0
  (\<open>00 00 40 41\<close>) in its first four bytes is parsed to \<open>None\<close>: the parser asks for
  at least 139 bytes before it reads any field. The input voltage of a fresh device stays
  at \<open>0.0\<close> although its offset lies within the 100 bytes. (A float stands for itself
  here as the four bytes it is read from.)
\<close>

theorem all_state_truncated_counterexample:
  "length ([0, 0, 0x40, 0x41] @ replicate 96 (0 :: byte)) = 100
   \<and> parse_packet_data id (map (char_of \<circ> unat)) ALL_STATE ([0, 0, 0x40, 0x41] @ replicate 96 0)
       = Inr None
   \<and> bytes_to_float id (py_slice 0 4 ([0, 0, 0x40, 0x41] @ replicate 96 0)) = Inr [0, 0, 0x40, 0x41]
   \<and> input_voltage (state (on_packet_received id (map (char_of \<circ> unat)) (DPS150_init id) CMD_GET
         ALL_STATE ([0, 0, 0x40, 0x41] @ replicate 96 0))) = VFloat [0, 0, 0, 0]"
  by (simp add: parse_packet_data_def parse_fields_def bytes_to_float_def py_slice_def
      on_packet_received_def DPS150_init_def DeviceState_default_def float_zero_def)

text \<open>
  C1, amended. For every all-state payload (type code 255) shorter than 139 bytes, in
  particular one truncated to 100 bytes, parsing raises nothing and yields no update, and
  the handler returns the device as it was: every field is left unchanged, those whose
  offsets lie within the received bytes included. A payload of at least 139 bytes is
  decoded in full: every one of the thirty-four fields of the state is overwritten with
  the value at its documented offset (floats through \<open>struct.unpack\<close>, the protection
  state through the table with \<open>NORMAL\<close> for an index above 6, the mode \<open>CC\<close> for a
  zero byte and \<open>CV\<close> otherwise), the device information is kept, and every callback
  is called once with the new state.
\<close>

theorem all_state_payload_threshold:
  "(length data < 139 \<longrightarrow>
      parse_packet_data unpack_f decode_str ALL_STATE data = Inr None
      \<and> on_packet_received unpack_f decode_str self command ALL_STATE data = self)
   \<and> (139 \<le> length data \<longrightarrow>
      on_packet_received unpack_f decode_str self command ALL_STATE data =
        (let st =
           \<lparr>input_voltage = VFloat (unpack_f (py_slice 0 4 data)),
               output_voltage = VFloat (unpack_f (py_slice 12 16 data)),
               output_current = VFloat (unpack_f (py_slice 16 20 data)),
               output_power = VFloat (unpack_f (py_slice 20 24 data)),
               temperature = VFloat (unpack_f (py_slice 24 28 data)),
               set_voltage = VFloat (unpack_f (py_slice 4 8 data)),
               set_current = VFloat (unpack_f (py_slice 8 12 data)),
               group1_set_voltage = VFloat (unpack_f (py_slice 28 32 data)),
               group1_set_current = VFloat (unpack_f (py_slice 32 36 data)),
               group2_set_voltage = VFloat (unpack_f (py_slice 36 40 data)),
               group2_set_current = VFloat (unpack_f (py_slice 40 44 data)),
               group3_set_voltage = VFloat (unpack_f (py_slice 44 48 data)),
               group3_set_current = VFloat (unpack_f (py_slice 48 52 data)),
               group4_set_voltage = VFloat (unpack_f (py_slice 52 56 data)),
               group4_set_current = VFloat (unpack_f (py_slice 56 60 data)),
               group5_set_voltage = VFloat (unpack_f (py_slice 60 64 data)),
               group5_set_current = VFloat (unpack_f (py_slice 64 68 data)),
               group6_set_voltage = VFloat (unpack_f (py_slice 68 72 data)),
               group6_set_current = VFloat (unpack_f (py_slice 72 76 data)),
               over_voltage_protection = VFloat (unpack_f (py_slice 76 80 data)),
               over_current_protection = VFloat (unpack_f (py_slice 80 84 data)),
               over_power_protection = VFloat (unpack_f (py_slice 84 88 data)),
               over_temperature_protection = VFloat (unpack_f (py_slice 88 92 data)),
               low_voltage_protection = VFloat (unpack_f (py_slice 92 96 data)),
               brightness = VInt (uint (data ! 96)),
               volume = VInt (uint (data ! 97)),
               metering_closed = VBool (uint (data ! 98) = 0),
               output_capacity = VFloat (unpack_f (py_slice 99 103 data)),
               output_energy = VFloat (unpack_f (py_slice 103 107 data)),
               output_closed = VBool (uint (data ! 107) = 1),
               protection_state = (if uint (data ! 108) < 7
            then [PS_NORMAL, PS_OVP, PS_OCP, PS_OPP, PS_OTP, PS_LVP, PS_REP] ! nat (uint (data ! 108))
            else PS_NORMAL),
               mode = (if uint (data ! 109) = 0 then CC else CV),
               upper_limit_voltage = VFloat (unpack_f (py_slice 111 115 data)),
               upper_limit_current = VFloat (unpack_f (py_slice 115 119 data))\<rparr>
         in self\<lparr>state := st,
                 notified := notified self @ map (\<lambda>callback. (callback, st)) (callbacks self)\<rparr>))"
proof -
  have short: "length data < 139 \<Longrightarrow>
      parse_packet_data unpack_f decode_str ALL_STATE data = Inr None
      \<and> on_packet_received unpack_f decode_str self command ALL_STATE data = self"
    by (simp add: on_packet_received_def parse_packet_data_def parse_fields_def)
  show ?thesis
    using short on_packet_received_all_state_full [of data unpack_f decode_str self command]
    by blast
qed

theorem all_state_payload_threshold_witness:
  "length ([0, 0, 0x40, 0x41] @ replicate 96 (0xFF :: byte)) < 139
   \<and> on_packet_received id (map (char_of \<circ> unat))
        ((DPS150_init id)\<lparr>state := (DeviceState_default id)\<lparr>protection_state := PS_OVP\<rparr>,
                            callbacks := [0, 1]\<rparr>)
        CMD_GET ALL_STATE ([0, 0, 0x40, 0x41] @ replicate 96 0xFF)
      = (DPS150_init id)\<lparr>state := (DeviceState_default id)\<lparr>protection_state := PS_OVP\<rparr>,
                          callbacks := [0, 1]\<rparr>
   \<and> 139 \<le> length (replicate 12 0 @ [0, 0, 0xA0, 0x40, 0, 0, 0x80, 0x3F] @ replicate 76 0
                      @ [7, 0, 0, 0] @ replicate 7 0 @ [1, 2, 0] @ replicate 30 (0 :: byte))
   \<and> output_voltage (state (on_packet_received id (map (char_of \<circ> unat))
        ((DPS150_init id)\<lparr>state := (DeviceState_default id)\<lparr>protection_state := PS_OVP\<rparr>,
                            callbacks := [0, 1]\<rparr>)
        CMD_GET ALL_STATE
        (replicate 12 0 @ [0, 0, 0xA0, 0x40, 0, 0, 0x80, 0x3F] @ replicate 76 0
           @ [7, 0, 0, 0] @ replicate 7 0 @ [1, 2, 0] @ replicate 30 0)))
      = VFloat [0, 0, 0xA0, 0x40]
   \<and> output_current (state (on_packet_received id (map (char_of \<circ> unat))
        ((DPS150_init id)\<lparr>state := (DeviceState_default id)\<lparr>protection_state := PS_OVP\<rparr>,
                            callbacks := [0, 1]\<rparr>)
        CMD_GET ALL_STATE
        (replicate 12 0 @ [0, 0, 0xA0, 0x40, 0, 0, 0x80, 0x3F] @ replicate 76 0
           @ [7, 0, 0, 0] @ replicate 7 0 @ [1, 2, 0] @ replicate 30 0)))
      = VFloat [0, 0, 0x80, 0x3F]
   \<and> brightness (state (on_packet_received id (map (char_of \<circ> unat))
        ((DPS150_init id)\<lparr>state := (DeviceState_default id)\<lparr>protection_state := PS_OVP\<rparr>,
                            callbacks := [0, 1]\<rparr>)
        CMD_GET ALL_STATE
        (replicate 12 0 @ [0, 0, 0xA0, 0x40, 0, 0, 0x80, 0x3F] @ replicate 76 0
           @ [7, 0, 0, 0] @ replicate 7 0 @ [1, 2, 0] @ replicate 30 0)))
      = VInt 7
   \<and> protection_state (state (on_packet_received id (map (char_of \<circ> unat))
        ((DPS150_init id)\<lparr>state := (DeviceState_default id)\<lparr>protection_state := PS_OVP\<rparr>,
                            callbacks := [0, 1]\<rparr>)
        CMD_GET ALL_STATE
        (replicate 12 0 @ [0, 0, 0xA0, 0x40, 0, 0, 0x80, 0x3F] @ replicate 76 0
           @ [7, 0, 0, 0] @ replicate 7 0 @ [1, 2, 0] @ replicate 30 0)))
      = PS_OCP
   \<and> mode (state (on_packet_received id (map (char_of \<circ> unat))
        ((DPS150_init id)\<lparr>state := (DeviceState_default id)\<lparr>protection_state := PS_OVP\<rparr>,
                            callbacks := [0, 1]\<rparr>)
        CMD_GET ALL_STATE
        (replicate 12 0 @ [0, 0, 0xA0, 0x40, 0, 0, 0x80, 0x3F] @ replicate 76 0
           @ [7, 0, 0, 0] @ replicate 7 0 @ [1, 2, 0] @ replicate 30 0)))
      = CC
   \<and> length (notified (on_packet_received id (map (char_of \<circ> unat))
        ((DPS150_init id)\<lparr>state := (DeviceState_default id)\<lparr>protection_state := PS_OVP\<rparr>,
                            callbacks := [0, 1]\<rparr>)
        CMD_GET ALL_STATE
        (replicate 12 0 @ [0, 0, 0xA0, 0x40, 0, 0, 0x80, 0x3F] @ replicate 76 0
           @ [7, 0, 0, 0] @ replicate 7 0 @ [1, 2, 0] @ replicate 30 0))) = 2"
proof -
  define dev :: "byte list DPS150" where
    "dev = (DPS150_init id)\<lparr>state := (DeviceState_default id)\<lparr>protection_state := PS_OVP\<rparr>,
                             callbacks := [0, 1]\<rparr>"
  define short :: "byte list" where "short = [0, 0, 0x40, 0x41] @ replicate 96 0xFF"
  define full :: "byte list" where
    "full = replicate 12 0 @ [0, 0, 0xA0, 0x40, 0, 0, 0x80, 0x3F] @ replicate 76 0
              @ [7, 0, 0, 0] @ replicate 7 0 @ [1, 2, 0] @ replicate 30 0"
  have ls: "length short < 139" and lf: "139 \<le> length full"
    by (simp_all add: short_def full_def)
  have s: "on_packet_received id (map (char_of \<circ> unat)) dev CMD_GET ALL_STATE short = dev"
    using all_state_payload_threshold [of short id "map (char_of \<circ> unat)" dev CMD_GET] ls
    by blast
  have n96: "full ! 96 = 7" and n108: "full ! 108 = 2" and n109: "full ! 109 = 0"
    by (simp_all add: full_def nth_append)
  have ov: "py_slice 12 16 full = [0, 0, 0xA0, 0x40]"
    and oc: "py_slice 16 20 full = [0, 0, 0x80, 0x3F]"
    by (simp_all add: full_def py_slice_def)
  have cb: "callbacks dev = [0, 1]" "notified dev = []"
    by (simp_all add: dev_def DPS150_init_def)
  have f: "on_packet_received id (map (char_of \<circ> unat)) dev CMD_GET ALL_STATE full
      = (let st =
           \<lparr>input_voltage = VFloat (id (py_slice 0 4 full)),
               output_voltage = VFloat (id (py_slice 12 16 full)),
               output_current = VFloat (id (py_slice 16 20 full)),
               output_power = VFloat (id (py_slice 20 24 full)),
               temperature = VFloat (id (py_slice 24 28 full)),
               set_voltage = VFloat (id (py_slice 4 8 full)),
               set_current = VFloat (id (py_slice 8 12 full)),
               group1_set_voltage = VFloat (id (py_slice 28 32 full)),
               group1_set_current = VFloat (id (py_slice 32 36 full)),
               group2_set_voltage = VFloat (id (py_slice 36 40 full)),
               group2_set_current = VFloat (id (py_slice 40 44 full)),
               group3_set_voltage = VFloat (id (py_slice 44 48 full)),
               group3_set_current = VFloat (id (py_slice 48 52 full)),
               group4_set_voltage = VFloat (id (py_slice 52 56 full)),
               group4_set_current = VFloat (id (py_slice 56 60 full)),
               group5_set_voltage = VFloat (id (py_slice 60 64 full)),
               group5_set_current = VFloat (id (py_slice 64 68 full)),
               group6_set_voltage = VFloat (id (py_slice 68 72 full)),
               group6_set_current = VFloat (id (py_slice 72 76 full)),
               over_voltage_protection = VFloat (id (py_slice 76 80 full)),
               over_current_protection = VFloat (id (py_slice 80 84 full)),
               over_power_protection = VFloat (id (py_slice 84 88 full)),
               over_temperature_protection = VFloat (id (py_slice 88 92 full)),
               low_voltage_protection = VFloat (id (py_slice 92 96 full)),
               brightness = VInt (uint (full ! 96)),
               volume = VInt (uint (full ! 97)),
               metering_closed = VBool (uint (full ! 98) = 0),
               output_capacity = VFloat (id (py_slice 99 103 full)),
               output_energy = VFloat (id (py_slice 103 107 full)),
               output_closed = VBool (uint (full ! 107) = 1),
               protection_state = (if uint (full ! 108) < 7
            then [PS_NORMAL, PS_OVP, PS_OCP, PS_OPP, PS_OTP, PS_LVP, PS_REP] ! nat (uint (full ! 108))
            else PS_NORMAL),
               mode = (if uint (full ! 109) = 0 then CC else CV),
               upper_limit_voltage = VFloat (id (py_slice 111 115 full)),
               upper_limit_current = VFloat (id (py_slice 115 119 full))\<rparr>
         in dev\<lparr>state := st,
                 notified := notified dev @ map (\<lambda>callback. (callback, st)) (callbacks dev)\<rparr>)"
    using all_state_payload_threshold [of full id "map (char_of \<circ> unat)" dev CMD_GET] lf
    by blast
  have r: "output_voltage (state (on_packet_received id (map (char_of \<circ> unat)) dev CMD_GET
              ALL_STATE full)) = VFloat [0, 0, 0xA0, 0x40]"
    "output_current (state (on_packet_received id (map (char_of \<circ> unat)) dev CMD_GET
              ALL_STATE full)) = VFloat [0, 0, 0x80, 0x3F]"
    "brightness (state (on_packet_received id (map (char_of \<circ> unat)) dev CMD_GET
              ALL_STATE full)) = VInt 7"
    "protection_state (state (on_packet_received id (map (char_of \<circ> unat)) dev CMD_GET
              ALL_STATE full)) = PS_OCP"
    "mode (state (on_packet_received id (map (char_of \<circ> unat)) dev CMD_GET
              ALL_STATE full)) = CC"
    "length (notified (on_packet_received id (map (char_of \<circ> unat)) dev CMD_GET
              ALL_STATE full)) = 2"
    unfolding f by (simp_all add: Let_def n96 n108 n109 ov oc cb)
  show ?thesis
    using ls lf s r unfolding dev_def short_def full_def by blast
qed

subsection \<open>The protection state\<close>

text \<open>
  C5. The claim asks that an index outside 0 to 6 decodes to Normal. The all-state branch
  does so; the branch of type code 220 does not. The frame \<open>F0 A1 DC 01 09 E6\<close> is a
  valid protection-state frame with index 9: a device whose protection state is OVP keeps
  OVP after it, the field being dropped. The same index 9 at byte 108 of an all-state
  payload sets the protection state of the same device to Normal.
\<close>

theorem protection_state_out_of_range_dropped:
  "decode_packet [0xF0, 0xA1, 220, 1, 9, 230] = Inr (0xA1, 220, 1, [9])
   \<and> protection_state (state (process_packet id (map (char_of \<circ> unat))
        ((DPS150_init id)\<lparr>state := (DeviceState_default id)\<lparr>protection_state := PS_OVP\<rparr>\<rparr>)
        [0xF0, 0xA1, 220, 1, 9, 230])) = PS_OVP
   \<and> protection_state (state (process_packet id (map (char_of \<circ> unat))
        ((DPS150_init id)\<lparr>state := (DeviceState_default id)\<lparr>protection_state := PS_OVP\<rparr>\<rparr>)
        [0xF0, 0xA1, 220, 1, 9, 230])) \<noteq> PS_NORMAL
   \<and> protection_state (state (on_packet_received id (map (char_of \<circ> unat))
        ((DPS150_init id)\<lparr>state := (DeviceState_default id)\<lparr>protection_state := PS_OVP\<rparr>\<rparr>)
        CMD_GET ALL_STATE (replicate 108 0 @ [9] @ replicate 30 0))) = PS_NORMAL"
proof -
  define dev :: "byte list DPS150" where
    "dev = (DPS150_init id)\<lparr>state := (DeviceState_default id)\<lparr>protection_state := PS_OVP\<rparr>\<rparr>"
  define full :: "byte list" where "full = replicate 108 0 @ [9] @ replicate 30 0"
  have d: "decode_packet [0xF0, 0xA1, 220, 1, 9, 230] = Inr (0xA1, 220, 1, [9])"
    by (simp add: decode_packet_def Let_def py_slice_def calculate_checksum_def)
  have p: "parse_packet_data id (map (char_of \<circ> unat)) PROTECTION_STATE [9] = Inr None"
    by (simp add: parse_packet_data_def parse_fields_def PROTECTION_STATES_def Let_def)
  have ps: "protection_state (state dev) = PS_OVP"
    by (simp add: dev_def)
  have single: "protection_state (state (process_packet id (map (char_of \<circ> unat)) dev
                  [0xF0, 0xA1, 220, 1, 9, 230])) = PS_OVP"
    by (simp add: process_packet_def d on_packet_received_def p ps)
  have lf: "139 \<le> length full" and n108: "full ! 108 = 9"
    by (simp_all add: full_def nth_append)
  have whole: "protection_state (state (on_packet_received id (map (char_of \<circ> unat)) dev
                 CMD_GET ALL_STATE full)) = PS_NORMAL"
    by (simp add: on_packet_received_all_state_full [OF lf] Let_def n108)
  show ?thesis
    using d single whole unfolding dev_def full_def by simp
qed

text \<open>For every index above 6 the branch of type code 220 yields no update at all: the
  handler returns the device as it was.\<close>

lemma protection_state_out_of_range_no_update:
  assumes "6 < uint b"
  shows "parse_packet_data unpack_f decode_str PROTECTION_STATE [b] = Inr None
       \<and> on_packet_received unpack_f decode_str self command PROTECTION_STATE [b] = self"
  using assms
  by (simp add: on_packet_received_def parse_packet_data_def parse_fields_def
      PROTECTION_STATES_def Let_def)

text \<open>An index inside the table does set the field, to the member at that index.\<close>

lemma protection_state_in_range:
  assumes "uint b \<le> 6"
  shows "protection_state (state
           (on_packet_received unpack_f decode_str self command PROTECTION_STATE [b]))
     = [PS_NORMAL, PS_OVP, PS_OCP, PS_OPP, PS_OTP, PS_LVP, PS_REP] ! unat b"
  using byte_le_6_cases [OF assms]
  by (auto simp add: on_packet_received_def parse_packet_data_def parse_fields_def
      PROTECTION_STATES_def Let_def update_from_dict_def assign_if_present_def from_string_def)

section \<open>Sending: validation and the order of frames\<close>

lemma send_command_ok:
  assumes "transport self = Some t" "connected t" "has_writer t"
    and "encode_packet command type_code data = Inr packet"
  shows "send_command command type_code data self
           = (Inr (), self\<lparr>transport := Some (t\<lparr>written := written t @ [packet]\<rparr>)\<rparr>)"
  using assms by (simp add: send_command_def transport_write_def)

lemma encode_packet_ok:
  assumes "0 \<le> command" "command \<le> 255" "0 \<le> type_code" "type_code \<le> 255"
    and "length data \<le> 255"
  shows "encode_packet command type_code data =
     Inr ([HEADER_OUTPUT, word_of_int command, word_of_int type_code, word_of_nat (length data)]
          @ data @ [word_of_int (calculate_checksum HEADER_OUTPUT command type_code data)])"
  using assms by (simp add: encode_packet_def Let_def)

lemma and_then_ok: "and_then (Inr u, self) f = f self"
  by (simp add: and_then_def)

text \<open>
  C7. \<open>set_brightness\<close> and \<open>set_volume\<close> raise \<open>ValueError\<close> for every value below 0
  or above 10, and \<open>set_group\<close> raises \<open>ValueError\<close> for every group below 1 or above
  6; in each case the device is returned as it was, so nothing has been written to the
  transport. On a connected transport every value from 0 to 10, the boundaries 0 and 10
  included, succeeds and writes exactly one frame, the SET frame of the value.
\<close>

theorem domain_validation:
  "((v < 0 \<or> 10 < v) \<longrightarrow>
       set_brightness v self = (Inl ValueError, self) \<and> set_volume v self = (Inl ValueError, self))
   \<and> ((g < 1 \<or> 6 < g) \<longrightarrow> set_group pack_f g voltage current self = (Inl ValueError, self))
   \<and> (0 \<le> v \<and> v \<le> 10 \<and> transport self = Some t \<and> connected t \<and> has_writer t \<longrightarrow>
       set_brightness v self
         = (Inr (), self\<lparr>transport := Some (t\<lparr>written := written t @
              [[HEADER_OUTPUT, 0xB1, 214, 1, word_of_int v, word_of_int (215 + v)]]\<rparr>)\<rparr>)
       \<and> set_volume v self
         = (Inr (), self\<lparr>transport := Some (t\<lparr>written := written t @
              [[HEADER_OUTPUT, 0xB1, 215, 1, word_of_int v, word_of_int (216 + v)]]\<rparr>)\<rparr>))"
proof -
  have cs: "0 \<le> v \<and> v \<le> 10 \<Longrightarrow> uint (word_of_int v :: byte) = v"
    by (simp add: uint_word_of_int)
  have b: "0 \<le> v \<and> v \<le> 10 \<Longrightarrow> encode_packet CMD_SET BRIGHTNESS [word_of_int v]
      = Inr [HEADER_OUTPUT, 0xB1, 214, 1, word_of_int v, word_of_int (215 + v)]"
    using cs by (simp add: encode_packet_def Let_def calculate_checksum_def)
  have vl: "0 \<le> v \<and> v \<le> 10 \<Longrightarrow> encode_packet CMD_SET VOLUME [word_of_int v]
      = Inr [HEADER_OUTPUT, 0xB1, 215, 1, word_of_int v, word_of_int (216 + v)]"
    using cs by (simp add: encode_packet_def Let_def calculate_checksum_def)
  show ?thesis
    using b vl
    by (auto simp add: set_brightness_def set_volume_def set_group_def send_command_ok)
qed

theorem domain_validation_witness:
  "set_brightness 11 (DPS150_init id) = (Inl ValueError, (DPS150_init id))
   \<and> set_brightness (- 1) (DPS150_init id) = (Inl ValueError, (DPS150_init id))
   \<and> set_volume 11 (DPS150_init id) = (Inl ValueError, (DPS150_init id))
   \<and> set_group Inr 0 [0, 0, 0x40, 0x41] [0, 0, 0x80, 0x3F] (DPS150_init id)
       = (Inl ValueError, (DPS150_init id))
   \<and> set_group Inr 7 [0, 0, 0x40, 0x41] [0, 0, 0x80, 0x3F] (DPS150_init id)
       = (Inl ValueError, (DPS150_init id))
   \<and> set_brightness 0
        ((DPS150_init id)\<lparr>transport := Some \<lparr>connected = True, has_writer = True, written = []\<rparr>\<rparr>)
      = (Inr (), (DPS150_init id)\<lparr>transport := Some \<lparr>connected = True, has_writer = True,
           written = [[0xF1, 0xB1, 214, 1, 0, 215]]\<rparr>\<rparr>)
   \<and> set_brightness 10
        ((DPS150_init id)\<lparr>transport := Some \<lparr>connected = True, has_writer = True, written = []\<rparr>\<rparr>)
      = (Inr (), (DPS150_init id)\<lparr>transport := Some \<lparr>connected = True, has_writer = True,
           written = [[0xF1, 0xB1, 214, 1, 10, 225]]\<rparr>\<rparr>)"
  using domain_validation [of 11 "DPS150_init id" 0 Inr "[0, 0, 0x40, 0x41]" "[0, 0, 0x80, 0x3F]"]
    domain_validation [of "- 1" "DPS150_init id" 7 Inr "[0, 0, 0x40, 0x41]" "[0, 0, 0x80, 0x3F]"]
    domain_validation [of 0
      "(DPS150_init id)\<lparr>transport := Some \<lparr>connected = True, has_writer = True, written = []\<rparr>\<rparr>"
      1 Inr "[]" "[]" "\<lparr>connected = True, has_writer = True, written = []\<rparr>"]
    domain_validation [of 10
      "(DPS150_init id)\<lparr>transport := Some \<lparr>connected = True, has_writer = True, written = []\<rparr>\<rparr>"
      1 Inr "[]" "[]" "\<lparr>connected = True, has_writer = True, written = []\<rparr>"]
  by (simp add: DPS150_init_def)

text \<open>
  C9, as stated, fails on the number of frames. \<open>set_group(1, 12.0, 1.0)\<close> on a
  connected transport writes four frames, not two: the live voltage, the live current,
  the group voltage and the group current. The floats are given here by their four packed
  bytes.
\<close>

theorem set_group_frame_count_counterexample:
  "written (the (transport (snd (set_group Inr 1 [0, 0, 0x40, 0x41] [0, 0, 0x80, 0x3F]
       ((DPS150_init id)\<lparr>transport := Some \<lparr>connected = True, has_writer = True, written = []\<rparr>\<rparr>)))))
     = [[0xF1, 0xB1, 193, 4, 0, 0, 0x40, 0x41, 70],
        [0xF1, 0xB1, 194, 4, 0, 0, 0x80, 0x3F, 133],
        [0xF1, 0xB1, 197, 4, 0, 0, 0x40, 0x41, 74],
        [0xF1, 0xB1, 198, 4, 0, 0, 0x80, 0x3F, 137]]
   \<and> length (written (the (transport (snd (set_group Inr 1 [0, 0, 0x40, 0x41] [0, 0, 0x80, 0x3F]
       ((DPS150_init id)\<lparr>transport := Some \<lparr>connected = True, has_writer = True, written = []\<rparr>\<rparr>))))))
     \<noteq> 2"
  by (simp add: set_group_def set_voltage_cmd_def set_current_cmd_def and_then_def send_command_def
      transport_write_def encode_packet_def calculate_checksum_def Let_def DPS150_init_def)

text \<open>
  C9, amended. For every group from 1 to 6 and every voltage and current that
  \<open>struct.pack\<close> accepts, \<open>set_group\<close> on a connected transport succeeds and writes
  exactly four frames after those already written, in this order: SET of the live voltage
  (type code 193), SET of the live current (194), SET of the group's voltage
  (\<open>197 + 2 (group - 1)\<close>) and SET of the group's current (\<open>198 + 2 (group - 1)\<close>). The
  live set-point frames come before the group-slot frames.
\<close>

theorem set_group_four_frames:
  assumes g: "1 \<le> g" "g \<le> 6"
    and t: "transport self = Some t" "connected t" "has_writer t"
    and pv: "pack_f voltage = Inr data_v" "length data_v \<le> 255"
    and pc: "pack_f current = Inr data_c" "length data_c \<le> 255"
  shows "\<exists>live_v live_c group_v group_c.
      encode_packet CMD_SET VOLTAGE_SET data_v = Inr live_v
    \<and> encode_packet CMD_SET CURRENT_SET data_c = Inr live_c
    \<and> encode_packet CMD_SET (GROUP1_VOLTAGE_SET + (g - 1) * 2) data_v = Inr group_v
    \<and> encode_packet CMD_SET (GROUP1_CURRENT_SET + (g - 1) * 2) data_c = Inr group_c
    \<and> set_group pack_f g voltage current self
        = (Inr (), self\<lparr>transport :=
             Some (t\<lparr>written := written t @ [live_v, live_c, group_v, group_c]\<rparr>)\<rparr>)"
proof -
  let ?vt = "GROUP1_VOLTAGE_SET + (g - 1) * 2" and ?ct = "GROUP1_CURRENT_SET + (g - 1) * 2"
  have r: "0 \<le> ?vt" "?vt \<le> 255" "0 \<le> ?ct" "?ct \<le> 255" using g by simp_all
  obtain live_v where e1: "encode_packet CMD_SET VOLTAGE_SET data_v = Inr live_v"
    using encode_packet_ok [of CMD_SET VOLTAGE_SET data_v] pv(2) by simp
  obtain live_c where e2: "encode_packet CMD_SET CURRENT_SET data_c = Inr live_c"
    using encode_packet_ok [of CMD_SET CURRENT_SET data_c] pc(2) by simp
  obtain group_v where e3: "encode_packet CMD_SET ?vt data_v = Inr group_v"
    using encode_packet_ok [of CMD_SET ?vt data_v] pv(2) r by simp
  obtain group_c where e4: "encode_packet CMD_SET ?ct data_c = Inr group_c"
    using encode_packet_ok [of CMD_SET ?ct data_c] pc(2) r by simp
  let ?t1 = "t\<lparr>written := written t @ [live_v]\<rparr>"
  let ?t2 = "t\<lparr>written := written t @ [live_v, live_c]\<rparr>"
  let ?t3 = "t\<lparr>written := written t @ [live_v, live_c, group_v]\<rparr>"
  let ?t4 = "t\<lparr>written := written t @ [live_v, live_c, group_v, group_c]\<rparr>"
  have s1: "set_voltage_cmd pack_f voltage self = (Inr (), self\<lparr>transport := Some ?t1\<rparr>)"
    using send_command_ok [OF t e1] pv(1) by (simp add: set_voltage_cmd_def)
  have s2: "set_current_cmd pack_f current (self\<lparr>transport := Some ?t1\<rparr>)
      = (Inr (), self\<lparr>transport := Some ?t2\<rparr>)"
    using send_command_ok [of "self\<lparr>transport := Some ?t1\<rparr>" ?t1, OF _ _ _ e2] t pc(1)
    by (simp add: set_current_cmd_def)
  have s3: "send_command CMD_SET ?vt data_v (self\<lparr>transport := Some ?t2\<rparr>)
      = (Inr (), self\<lparr>transport := Some ?t3\<rparr>)"
    using send_command_ok [of "self\<lparr>transport := Some ?t2\<rparr>" ?t2, OF _ _ _ e3] t
    by simp
  have s4: "send_command CMD_SET ?ct data_c (self\<lparr>transport := Some ?t3\<rparr>)
      = (Inr (), self\<lparr>transport := Some ?t4\<rparr>)"
    using send_command_ok [of "self\<lparr>transport := Some ?t3\<rparr>" ?t3, OF _ _ _ e4] t
    by simp
  have "set_group pack_f g voltage current self = (Inr (), self\<lparr>transport := Some ?t4\<rparr>)"
    unfolding set_group_def Let_def
    by (simp only: g pv(1) pc(1) s1 s2 s3 s4 and_then_ok sum.case simp_thms if_False)
  with e1 e2 e3 e4 show ?thesis by blast
qed

theorem set_group_four_frames_witness:
  "set_group Inr 6 [0, 0, 0x40, 0x41] [0, 0, 0x80, 0x3F]
       ((DPS150_init id)\<lparr>transport := Some \<lparr>connected = True, has_writer = True, written = []\<rparr>\<rparr>)
     = (Inr (), (DPS150_init id)\<lparr>transport := Some \<lparr>connected = True, has_writer = True,
          written = [[0xF1, 0xB1, 193, 4, 0, 0, 0x40, 0x41, 70],
                     [0xF1, 0xB1, 194, 4, 0, 0, 0x80, 0x3F, 133],
                     [0xF1, 0xB1, 207, 4, 0, 0, 0x40, 0x41, 84],
                     [0xF1, 0xB1, 208, 4, 0, 0, 0x80, 0x3F, 147]]\<rparr>\<rparr>)"
  using set_group_four_frames [of 6
      "(DPS150_init id)\<lparr>transport := Some \<lparr>connected = True, has_writer = True, written = []\<rparr>\<rparr>"
      "\<lparr>connected = True, has_writer = True, written = []\<rparr>"
      Inr "[0, 0, 0x40, 0x41]" "[0, 0, 0x40, 0x41]" "[0, 0, 0x80, 0x3F]" "[0, 0, 0x80, 0x3F]"]
  by (simp add: encode_packet_def calculate_checksum_def Let_def DPS150_init_def)

end
